theory Spec2Isabelle
  imports Main
begin

text \<open>
  A model of the Go package \<^verbatim>\<open>extensions\<close> (github.com/fujiwara/lambda-extensions), the
  client of the Lambda Extensions API: the event decoder \<^verbatim>\<open>Event.UnmarshalJSON\<close>, and the
  methods \<^verbatim>\<open>Register\<close>, \<^verbatim>\<open>fetchNextEvent\<close>, \<^verbatim>\<open>Run\<close> and \<^verbatim>\<open>SubscribeTelemetry\<close> of \<^verbatim>\<open>Client\<close>.

  Conventions. A method that mutates its receiver takes it and returns it. What the
  world gives a method (the transport's answer to a request, the state of the context)
  is an argument; what the method does to the world (requests, callback calls, log
  records) is returned as a list of actions, in order. The memory a method reads that
  other code can write (a package variable, the array behind a slice) is an argument
  too. An error result is
  \<open>error option\<close>, \<open>None\<close> for nil. Callbacks are functions that return: a callback that
  panics or never returns is outside the model. Go's \<^verbatim>\<open>int\<close> is taken as 64 bits wide.
\<close>

section \<open>Errors, JSON documents and the encoding/json boundary\<close>

text \<open>
  Go error values. \<open>Errorf\<close> is \<^verbatim>\<open>fmt.Errorf(format, args...)\<close> with its arguments kept
  unrendered, so that an error wrapped with \<^verbatim>\<open>%w\<close> stays visible inside the wrapper.
  \<open>External\<close> is an error made outside the package (the HTTP transport, the JSON
  scanner, a callback); \<open>UnmarshalTypeError\<close> is encoding/json's error for a JSON value
  that does not fit the Go target (the JSON kind, the field).
\<close>

datatype error =
    External string
  | UnmarshalTypeError string string
  | Errorf string "fmtarg list"
and fmtarg =
    ArgErr error
  | ArgInt int
  | ArgStr string
  | ArgHeader "(string \<times> string list) list"

text \<open>
  A parsed JSON document. A number is either an integer literal or a literal with a
  fraction or an exponent (kept as text: it never fits a Go \<^verbatim>\<open>int\<close>).
\<close>

datatype json =
    JNull
  | JBool bool
  | JInt int
  | JFrac string
  | JString string
  | JArray "json list"
  | JObject "(string \<times> json) list"

text \<open>
  The syntax layer of encoding/json is not part of the repository and is a parameter:
  \<open>readValue\<close> is \<^verbatim>\<open>Decoder.Decode\<close>'s framing (the bytes of the first JSON value of a
  stream, or the scanner's error), \<open>parse\<close> is \<^verbatim>\<open>json.Unmarshal\<close>'s validity check and
  parse of a whole byte slice.
\<close>

record jsonlib =
  readValue :: "string \<Rightarrow> error + string"
  parse :: "string \<Rightarrow> error + json"

fun kind :: "json \<Rightarrow> string" where
  "kind JNull = ''null''"
| "kind (JBool b) = ''bool''"
| "kind (JInt n) = ''number''"
| "kind (JFrac s) = ''number''"
| "kind (JString s) = ''string''"
| "kind (JArray xs) = ''array''"
| "kind (JObject kvs) = ''object''"

text \<open>\<^verbatim>\<open>d.saveError\<close>: the decoder keeps the earliest type error and goes on.\<close>

fun saveError :: "error option \<Rightarrow> error \<Rightarrow> error option" where
  "saveError None e = Some e"
| "saveError (Some e0) e = Some e0"

text \<open>
  Storing a JSON value into a Go \<^verbatim>\<open>string\<close> or \<^verbatim>\<open>int\<close>: \<^verbatim>\<open>null\<close> has no effect, a value of
  another kind (or an integer outside 64 bits) is a type error and leaves the target as
  it was.
\<close>

fun store_string :: "string \<Rightarrow> json \<Rightarrow> error option \<times> string \<Rightarrow> error option \<times> string" where
  "store_string f (JString s) (se, old) = (se, s)"
| "store_string f JNull (se, old) = (se, old)"
| "store_string f v (se, old) = (saveError se (UnmarshalTypeError (kind v) f), old)"

fun store_int :: "string \<Rightarrow> json \<Rightarrow> error option \<times> int \<Rightarrow> error option \<times> int" where
  "store_int f (JInt n) (se, old) =
     (if - (2 ^ 63) \<le> n \<and> n < 2 ^ 63 then (se, n)
      else (saveError se (UnmarshalTypeError ''number'' f), old))"
| "store_int f JNull (se, old) = (se, old)"
| "store_int f v (se, old) = (saveError se (UnmarshalTypeError (kind v) f), old)"

text \<open>
  Object keys are matched to struct fields by exact name first and by folded name
  otherwise. \<open>foldName\<close> upper-cases ASCII letters and maps the two non-ASCII runes whose
  simple case folding is an ASCII letter (U+212A, the Kelvin sign, bytes E2 84 AA, and
  U+017F, the long s, bytes C5 BF) to \<open>K\<close> and \<open>S\<close>. The field names of this package are
  ASCII and pairwise distinct after folding, so a key selects the field with the same
  folded name.
\<close>

definition upper :: "char \<Rightarrow> char" where
  "upper c = (let n = (of_char c :: nat) in if 97 \<le> n \<and> n \<le> 122 then char_of (n - 32) else c)"

fun foldName :: "string \<Rightarrow> string" where
  "foldName [] = []"
| "foldName (c # cs) =
     (if of_char c = (226::nat) \<and> map of_char (take 2 cs) = [132, 170::nat]
        then CHR ''K'' # foldName (drop 2 cs)
      else if of_char c = (197::nat) \<and> map of_char (take 1 cs) = [191::nat]
        then CHR ''S'' # foldName (drop 1 cs)
      else upper c # foldName cs)"

declare foldName.simps [simp del]

definition is_field :: "string \<Rightarrow> string \<Rightarrow> bool" where
  "is_field key name = (foldName key = foldName name)"

section \<open>Protocol types\<close>

definition Invoke :: string where
  "Invoke = ''INVOKE''"

definition Shutdown :: string where
  "Shutdown = ''SHUTDOWN''"

definition DefaultTelemetryPort :: int where
  "DefaultTelemetryPort = 8080"

definition lambdaExtensionNameHeader :: string where
  "lambdaExtensionNameHeader = ''Lambda-Extension-Name''"

definition lambdaExtensionIdentifierHeader :: string where
  "lambdaExtensionIdentifierHeader = ''Lambda-Extension-Identifier''"

record Tracing =
  TracingType :: string
  TracingValue :: string

record InvokeEvent =
  iEventType :: string
  iDeadlineMs :: int
  RequestID :: string
  InvokedFunctionArn :: string
  Tracing :: Tracing

record ShutdownEvent =
  sEventType :: string
  sDeadlineMs :: int
  ShutdownReason :: string

text \<open>The two pointer fields of \<^verbatim>\<open>Event\<close>; \<open>None\<close> is the nil pointer.\<close>

record Event =
  EvInvoke :: "InvokeEvent option"
  EvShutdown :: "ShutdownEvent option"

definition zero_Tracing :: Tracing where
  "zero_Tracing = \<lparr>TracingType = '''', TracingValue = ''''\<rparr>"

definition zero_InvokeEvent :: InvokeEvent where
  "zero_InvokeEvent = \<lparr>iEventType = '''', iDeadlineMs = 0, RequestID = '''',
     InvokedFunctionArn = '''', Tracing = zero_Tracing\<rparr>"

definition zero_ShutdownEvent :: ShutdownEvent where
  "zero_ShutdownEvent = \<lparr>sEventType = '''', sDeadlineMs = 0, ShutdownReason = ''''\<rparr>"

definition zero_Event :: Event where
  "zero_Event = \<lparr>EvInvoke = None, EvShutdown = None\<rparr>"

record TelemetryBuffering =
  MaxItems :: int
  MaxBytes :: int
  TimeoutMs :: int

record TelemetryDestination =
  Protocol :: string
  URI :: string

text \<open>
  A \<^verbatim>\<open>[]string\<close> is nil or a view of a backing array: the array's address, where the view
  starts and how many elements it has. Copying the slice copies the view, not the
  array, so two copies see each other's element writes. The arrays live in a store.
\<close>

datatype slice = NilSlice | Slice nat nat nat

type_synonym arrays = "nat \<Rightarrow> string list"

text \<open>The elements a slice shows (\<open>None\<close> for nil).\<close>

fun elems :: "arrays \<Rightarrow> slice \<Rightarrow> string list option" where
  "elems h NilSlice = None"
| "elems h (Slice a off n) = Some (take n (drop off (h a)))"

text \<open>
  \<^verbatim>\<open>s[i] = v\<close>: the write goes to the backing array; an index out of range panics
  (\<open>None\<close>).
\<close>

fun slice_set :: "arrays \<Rightarrow> slice \<Rightarrow> int \<Rightarrow> string \<Rightarrow> arrays option" where
  "slice_set h NilSlice i v = None"
| "slice_set h (Slice a off n) i v =
     (if 0 \<le> i \<and> i < int n then Some (h(a := (h a)[off + nat i := v])) else None)"

record TelemetrySubscription =
  SchemaVersion :: string
  Types :: slice
  Buffering :: TelemetryBuffering
  Destination :: TelemetryDestination

section \<open>Event decoder\<close>

text \<open>
  \<^verbatim>\<open>json.Unmarshal(data, &v)\<close> for the struct types of the package: the object's members
  are visited in order, a member whose key selects a field is stored into it, other
  members are skipped; the earliest type error is returned after the whole object has
  been visited. \<^verbatim>\<open>null\<close> at the top has no effect; any other non-object is a type error.
\<close>

fun common_member :: "string \<times> json \<Rightarrow> error option \<times> string \<Rightarrow> error option \<times> string" where
  "common_member (k, v) st =
     (if is_field k ''eventType'' then store_string ''eventType'' v st else st)"

definition unmarshal_common :: "jsonlib \<Rightarrow> string \<Rightarrow> string \<Rightarrow> error option \<times> string" where
  "unmarshal_common L data common =
     (case parse L data of
        Inl e \<Rightarrow> (Some e, common)
      | Inr JNull \<Rightarrow> (None, common)
      | Inr (JObject kvs) \<Rightarrow> fold common_member kvs (None, common)
      | Inr v \<Rightarrow> (Some (UnmarshalTypeError (kind v) ''''), common))"

fun Tracing_member :: "string \<times> json \<Rightarrow> error option \<times> Tracing \<Rightarrow> error option \<times> Tracing" where
  "Tracing_member (k, v) (se, t) =
     (if is_field k ''type'' then
        (case store_string ''tracing.type'' v (se, TracingType t) of
           (se', s) \<Rightarrow> (se', t\<lparr>TracingType := s\<rparr>))
      else if is_field k ''value'' then
        (case store_string ''tracing.value'' v (se, TracingValue t) of
           (se', s) \<Rightarrow> (se', t\<lparr>TracingValue := s\<rparr>))
      else (se, t))"

fun store_Tracing :: "json \<Rightarrow> error option \<times> Tracing \<Rightarrow> error option \<times> Tracing" where
  "store_Tracing (JObject kvs) st = fold Tracing_member kvs st"
| "store_Tracing JNull st = st"
| "store_Tracing v (se, t) = (saveError se (UnmarshalTypeError (kind v) ''tracing''), t)"

fun InvokeEvent_member ::
  "string \<times> json \<Rightarrow> error option \<times> InvokeEvent \<Rightarrow> error option \<times> InvokeEvent" where
  "InvokeEvent_member (k, v) (se, r) =
     (if is_field k ''eventType'' then
        (case store_string ''eventType'' v (se, iEventType r) of
           (se', s) \<Rightarrow> (se', r\<lparr>iEventType := s\<rparr>))
      else if is_field k ''deadlineMs'' then
        (case store_int ''deadlineMs'' v (se, iDeadlineMs r) of
           (se', n) \<Rightarrow> (se', r\<lparr>iDeadlineMs := n\<rparr>))
      else if is_field k ''requestId'' then
        (case store_string ''requestId'' v (se, RequestID r) of
           (se', s) \<Rightarrow> (se', r\<lparr>RequestID := s\<rparr>))
      else if is_field k ''invokedFunctionArn'' then
        (case store_string ''invokedFunctionArn'' v (se, InvokedFunctionArn r) of
           (se', s) \<Rightarrow> (se', r\<lparr>InvokedFunctionArn := s\<rparr>))
      else if is_field k ''tracing'' then
        (case store_Tracing v (se, Tracing r) of
           (se', t) \<Rightarrow> (se', r\<lparr>Tracing := t\<rparr>))
      else (se, r))"

definition unmarshal_InvokeEvent ::
  "jsonlib \<Rightarrow> string \<Rightarrow> InvokeEvent \<Rightarrow> error option \<times> InvokeEvent" where
  "unmarshal_InvokeEvent L data r =
     (case parse L data of
        Inl e \<Rightarrow> (Some e, r)
      | Inr JNull \<Rightarrow> (None, r)
      | Inr (JObject kvs) \<Rightarrow> fold InvokeEvent_member kvs (None, r)
      | Inr v \<Rightarrow> (Some (UnmarshalTypeError (kind v) ''''), r))"

fun ShutdownEvent_member ::
  "string \<times> json \<Rightarrow> error option \<times> ShutdownEvent \<Rightarrow> error option \<times> ShutdownEvent" where
  "ShutdownEvent_member (k, v) (se, r) =
     (if is_field k ''eventType'' then
        (case store_string ''eventType'' v (se, sEventType r) of
           (se', s) \<Rightarrow> (se', r\<lparr>sEventType := s\<rparr>))
      else if is_field k ''deadlineMs'' then
        (case store_int ''deadlineMs'' v (se, sDeadlineMs r) of
           (se', n) \<Rightarrow> (se', r\<lparr>sDeadlineMs := n\<rparr>))
      else if is_field k ''shutdownReason'' then
        (case store_string ''shutdownReason'' v (se, ShutdownReason r) of
           (se', s) \<Rightarrow> (se', r\<lparr>ShutdownReason := s\<rparr>))
      else (se, r))"

definition unmarshal_ShutdownEvent ::
  "jsonlib \<Rightarrow> string \<Rightarrow> ShutdownEvent \<Rightarrow> error option \<times> ShutdownEvent" where
  "unmarshal_ShutdownEvent L data r =
     (case parse L data of
        Inl e \<Rightarrow> (Some e, r)
      | Inr JNull \<Rightarrow> (None, r)
      | Inr (JObject kvs) \<Rightarrow> fold ShutdownEvent_member kvs (None, r)
      | Inr v \<Rightarrow> (Some (UnmarshalTypeError (kind v) ''''), r))"

text \<open>
  \<^verbatim>\<open>func (r *Event) UnmarshalJSON(data []byte) error\<close>. The receiver is passed in and
  returned: a branch assigns its pointer field before the second \<^verbatim>\<open>json.Unmarshal\<close>, so
  the field stays assigned when that call fails.
\<close>

definition UnmarshalJSON :: "jsonlib \<Rightarrow> string \<Rightarrow> Event \<Rightarrow> error option \<times> Event" where
  "UnmarshalJSON L data r =
     (case unmarshal_common L data '''' of
        (Some err, common) \<Rightarrow> (Some err, r)
      | (None, common) \<Rightarrow>
          if common = Invoke then
            (case unmarshal_InvokeEvent L data zero_InvokeEvent of
               (err, ie) \<Rightarrow> (err, r\<lparr>EvInvoke := Some ie\<rparr>))
          else if common = Shutdown then
            (case unmarshal_ShutdownEvent L data zero_ShutdownEvent of
               (err, se) \<Rightarrow> (err, r\<lparr>EvShutdown := Some se\<rparr>))
          else (Some (Errorf ''unknown event type: %s'' [ArgStr common]), r))"

section \<open>HTTP exchange, client and observable actions\<close>

type_synonym header = "(string \<times> string list) list"

text \<open>
  A request as the client builds it; the body is the document handed to
  \<^verbatim>\<open>json.Marshal\<close> (\<open>None\<close>: no body). A response as \<^verbatim>\<open>c.client.Do\<close> returns it.
\<close>

record request =
  Method :: string
  URL :: string
  ReqHeader :: header
  ReqBody :: "json option"

record response =
  StatusCode :: int
  RespHeader :: header
  RespBody :: string

text \<open>
  \<^verbatim>\<open>Header.Get\<close>: the first value stored under the key, the empty string when there is
  none (the key constants of the package are already in canonical form).
\<close>

definition Header_Get :: "header \<Rightarrow> string \<Rightarrow> string" where
  "Header_Get h key =
     (case map_of h key of None \<Rightarrow> '''' | Some [] \<Rightarrow> '''' | Some (v # vs) \<Rightarrow> v)"

text \<open>
  The callbacks are function values (\<open>None\<close>: nil); a callback returns its error or
  \<open>None\<close> for nil. The \<^verbatim>\<open>*http.Client\<close> field is the transport, whose answers are inputs
  of the operations below.
\<close>

record Client =
  Name :: string
  CallbackInvoke :: "(InvokeEvent \<Rightarrow> error option) option"
  CallbackShutdown :: "(ShutdownEvent \<Rightarrow> error option) option"
  extensionId :: string
  lambdaExtensionAPIEndpoint :: string
  lambdaTelemetryAPIEndpoint :: string

text \<open>
  \<^verbatim>\<open>NewClient\<close>, from the base name of the executable and the value of the environment
  variable \<^verbatim>\<open>AWS_LAMBDA_RUNTIME_API\<close>.
\<close>

definition NewClient :: "string \<Rightarrow> string \<Rightarrow> error + Client" where
  "NewClient name host =
     (if host = '''' then Inl (Errorf ''AWS_LAMBDA_RUNTIME_API is not set'' [])
      else Inr \<lparr>Name = name, CallbackInvoke = None, CallbackShutdown = None,
                extensionId = '''',
                lambdaExtensionAPIEndpoint = ''http://'' @ host @ ''/2020-01-01/extension'',
                lambdaTelemetryAPIEndpoint = ''http://'' @ host @ ''/2022-07-01/telemetry''\<rparr>)"

text \<open>
  What an operation does besides returning: the requests it hands to the transport, the
  callbacks it calls, and its \<^verbatim>\<open>slog\<close> records (level, message, the error attribute if
  there is one).
\<close>

datatype level = LevelDebug | LevelInfo | LevelWarn | LevelError

datatype action =
    HttpDo request
  | CallInvoke InvokeEvent
  | CallShutdown ShutdownEvent
  | Slog level string "error option"

section \<open>Registration handshake\<close>

definition marshal_registerPayload :: "string list \<Rightarrow> json" where
  "marshal_registerPayload events = JObject [(''events'', JArray (map JString events))]"

text \<open>
  \<^verbatim>\<open>json.NewDecoder(resp.Body).Decode(&result)\<close> for \<^verbatim>\<open>map[string]string\<close>; only the error
  matters, the map is logged and dropped.
\<close>

fun string_map_member :: "string \<times> json \<Rightarrow> error option \<Rightarrow> error option" where
  "string_map_member (k, JString s) se = se"
| "string_map_member (k, JNull) se = se"
| "string_map_member (k, v) se = saveError se (UnmarshalTypeError (kind v) k)"

definition Decode_string_map :: "jsonlib \<Rightarrow> string \<Rightarrow> error option" where
  "Decode_string_map L body =
     (case readValue L body of
        Inl e \<Rightarrow> Some e
      | Inr data \<Rightarrow>
         (case parse L data of
            Inl e \<Rightarrow> Some e
          | Inr JNull \<Rightarrow> None
          | Inr (JObject kvs) \<Rightarrow> fold string_map_member kvs None
          | Inr v \<Rightarrow> Some (UnmarshalTypeError (kind v) '''')))"

text \<open>
  \<^verbatim>\<open>func (c *Client) Register(ctx) error\<close>, given the transport's answer to its request.
  Returns the error, the client after the call and the actions.
\<close>

definition Register ::
  "jsonlib \<Rightarrow> Client \<Rightarrow> error + response \<Rightarrow> error option \<times> Client \<times> action list" where
  "Register L c doResult =
     (let u = lambdaExtensionAPIEndpoint c @ ''/register'';
          events = (case CallbackInvoke c of None \<Rightarrow> [] | Some cb \<Rightarrow> [Invoke])
                 @ (case CallbackShutdown c of None \<Rightarrow> [] | Some cb \<Rightarrow> [Shutdown]);
          req = \<lparr>Method = ''POST'', URL = u,
                 ReqHeader = [(lambdaExtensionNameHeader, [Name c])],
                 ReqBody = Some (marshal_registerPayload events)\<rparr>;
          tr = [Slog LevelInfo ''registering extension'' None, HttpDo req]
      in case doResult of
           Inl err \<Rightarrow> (Some (Errorf ''failed to register extension: %w'' [ArgErr err]), c, tr)
         | Inr resp \<Rightarrow>
            (case Decode_string_map L (RespBody resp) of
               Some err \<Rightarrow>
                 (Some (Errorf ''failed to decode register response: %w'' [ArgErr err]), c, tr)
             | None \<Rightarrow>
                 (let c' = c\<lparr>extensionId :=
                              Header_Get (RespHeader resp) lambdaExtensionIdentifierHeader\<rparr>;
                      tr' = tr @ [Slog LevelInfo ''register status'' None]
                  in if extensionId c' = '''' then
                       (Some (Errorf ''extension identifier is empty: %d %v''
                                [ArgInt (StatusCode resp), ArgHeader (RespHeader resp)]),
                        c', tr')
                     else (None, c', tr' @ [Slog LevelInfo ''extension registered'' None]))))"

text \<open>
  A sequence of \<^verbatim>\<open>Register\<close> calls on one client, one transport answer per call: for
  each call, the error it returns and the session identifier the client holds after it.
\<close>

fun Register_seq ::
  "jsonlib \<Rightarrow> Client \<Rightarrow> (error + response) list \<Rightarrow> (error option \<times> string) list" where
  "Register_seq L c [] = []"
| "Register_seq L c (d # ds) =
     (case Register L c d of
        (err, c', tr) \<Rightarrow> (err, extensionId c') # Register_seq L c' ds)"

section \<open>Event loop\<close>

definition nextEventRequest :: "Client \<Rightarrow> action list" where
  "nextEventRequest c =
     [Slog LevelDebug ''getting next event'' None,
      HttpDo \<lparr>Method = ''GET'', URL = lambdaExtensionAPIEndpoint c @ ''/event/next'',
              ReqHeader = [(lambdaExtensionIdentifierHeader, [extensionId c])],
              ReqBody = None\<rparr>]"

text \<open>
  \<^verbatim>\<open>json.NewDecoder(resp.Body).Decode(&ev)\<close> with \<^verbatim>\<open>var ev Event\<close>: the decoder frames the
  first value of the body and hands its bytes to \<open>UnmarshalJSON\<close> on the zero \<open>Event\<close>.
\<close>

definition Decode_Event :: "jsonlib \<Rightarrow> string \<Rightarrow> error + Event" where
  "Decode_Event L body =
     (case readValue L body of
        Inl e \<Rightarrow> Inl e
      | Inr data \<Rightarrow>
         (case UnmarshalJSON L data zero_Event of
            (Some e, ev) \<Rightarrow> Inl e
          | (None, ev) \<Rightarrow> Inr ev))"

text \<open>
  \<^verbatim>\<open>fetchNextEvent\<close>, given the transport's answer: the result and the actions (the
  request is sent in every case).
\<close>

definition fetchNextEvent ::
  "jsonlib \<Rightarrow> Client \<Rightarrow> error + response \<Rightarrow> (error + Event) \<times> action list" where
  "fetchNextEvent L c doResult =
     (case doResult of
        Inl err \<Rightarrow> (Inl (Errorf ''failed to get next event: %w'' [ArgErr err]), nextEventRequest c)
      | Inr resp \<Rightarrow>
          if StatusCode resp \<noteq> 200 then
            (Inl (Errorf ''failed to get next event: %d'' [ArgInt (StatusCode resp)]),
             nextEventRequest c)
          else
            (case Decode_Event L (RespBody resp) of
               Inl err \<Rightarrow>
                 (Inl (Errorf ''failed to decode event response: %w'' [ArgErr err]),
                  nextEventRequest c)
             | Inr ev \<Rightarrow> (Inr ev, nextEventRequest c)))"

text \<open>
  One pass of the \<^verbatim>\<open>for\<close> loop of \<^verbatim>\<open>Run\<close> either goes round again (\<open>Continue\<close>) or leaves
  \<^verbatim>\<open>Run\<close> with its result (\<open>Return\<close>; \<open>None\<close> is the nil error).
\<close>

datatype step = Continue | Return "error option"

text \<open>The part of the loop body after a successful fetch.\<close>

definition Run_dispatch :: "Client \<Rightarrow> Event \<Rightarrow> step \<times> action list" where
  "Run_dispatch c ev =
     (case EvInvoke ev of
        Some ie \<Rightarrow>
          (Continue,
           Slog LevelDebug ''invoke event received'' None #
           (case CallbackInvoke c of
              Some cb \<Rightarrow>
                CallInvoke ie #
                (case cb ie of
                   Some err \<Rightarrow> [Slog LevelError ''invoke callback failed'' (Some err)]
                 | None \<Rightarrow> [])
            | None \<Rightarrow> [Slog LevelWarn ''invoke callback is not set'' None]))
      | None \<Rightarrow>
         (case EvShutdown ev of
            Some se \<Rightarrow>
              (case CallbackShutdown c of
                 Some cb \<Rightarrow>
                   (case cb se of
                      Some err \<Rightarrow>
                        (Return (Some (Errorf ''shutdown callback failed: %w'' [ArgErr err])),
                         [Slog LevelDebug ''shutdown event received. shutting down extension'' None,
                          CallShutdown se,
                          Slog LevelError ''shutdown callback failed'' (Some err)])
                    | None \<Rightarrow>
                        (Return None,
                         [Slog LevelDebug ''shutdown event received. shutting down extension'' None,
                          CallShutdown se]))
               | None \<Rightarrow>
                   (Return None,
                    [Slog LevelDebug ''shutdown event received. shutting down extension'' None,
                     Slog LevelWarn ''shutdown callback is not set'' None]))
          | None \<Rightarrow> (Continue, [Slog LevelWarn ''unknown event received'' None])))"

text \<open>
  What the world gives one pass of the loop: the transport's answer to the poll, and
  whether \<^verbatim>\<open>ctx.Done()\<close> is ready when the loop looks at it after a failed fetch.
\<close>

record poll =
  answer :: "error + response"
  ctxDone :: bool

definition Run_body :: "jsonlib \<Rightarrow> Client \<Rightarrow> poll \<Rightarrow> step \<times> action list" where
  "Run_body L c p =
     (case fetchNextEvent L c (answer p) of
        (Inl err, tr) \<Rightarrow>
          if ctxDone p then (Return None, tr)
          else (Continue, tr @ [Slog LevelError ''failed to fetch next event'' (Some err)])
      | (Inr ev, tr) \<Rightarrow>
          (case Run_dispatch c ev of (st, tr') \<Rightarrow> (st, tr @ tr')))"

text \<open>
  The loop over a finite script of polls. The loop has no bound of its own: when the
  script is used up the next request has been sent and \<^verbatim>\<open>Run\<close> is still waiting for its
  answer (\<open>Polling\<close>); it has returned only when the outcome is \<open>Returned\<close>.
\<close>

datatype outcome = Returned "error option" | Polling

fun Run_loop :: "jsonlib \<Rightarrow> Client \<Rightarrow> poll list \<Rightarrow> outcome \<times> action list" where
  "Run_loop L c [] = (Polling, nextEventRequest c)"
| "Run_loop L c (p # ps) =
     (case Run_body L c p of
        (Return r, tr) \<Rightarrow> (Returned r, tr)
      | (Continue, tr) \<Rightarrow> (case Run_loop L c ps of (out, tr') \<Rightarrow> (out, tr @ tr')))"

definition Run :: "jsonlib \<Rightarrow> Client \<Rightarrow> poll list \<Rightarrow> outcome \<times> action list" where
  "Run L c script =
     (if extensionId c = '''' then
        (Returned (Some (Errorf ''extension is not registered. call Register method first'' [])), [])
      else Run_loop L c script)"

text \<open>The requests among a list of actions.\<close>

fun requests :: "action list \<Rightarrow> request list" where
  "requests [] = []"
| "requests (HttpDo r # as) = r # requests as"
| "requests (a # as) = requests as"

section \<open>Telemetry subscription handshake\<close>

text \<open>\<^verbatim>\<open>%d\<close> of a Go integer.\<close>

fun decimal :: "nat \<Rightarrow> string" where
  "decimal n = (if n < 10 then [''0123456789'' ! n]
                else decimal (n div 10) @ [''0123456789'' ! (n mod 10)])"

declare decimal.simps [simp del]

definition fmt_d :: "int \<Rightarrow> string" where
  "fmt_d i = (if i < 0 then CHR ''-'' # decimal (nat (- i)) else decimal (nat i))"

text \<open>
  \<^verbatim>\<open>DefaultTelemetrySubscription\<close> is an exported package variable, not a constant: any
  importer can assign it or a field of it, and the elements of its \<open>Types\<close> can be
  written through any copy of that slice. The memory the handshake reads is therefore
  state: the current value of the variable, and the store of backing arrays.
\<close>

record memory =
  DefaultTelemetrySubscription :: TelemetrySubscription
  arrays :: arrays

text \<open>
  The memory when the package has been initialised: the variable holds the composite
  literal of its declaration, whose \<open>Types\<close> is a fresh array of two elements (at
  address \<open>Types_array\<close>) seen whole.
\<close>

definition Types_array :: nat where
  "Types_array = 0"

definition memory_init :: memory where
  "memory_init =
     \<lparr>DefaultTelemetrySubscription =
        \<lparr>SchemaVersion = ''2022-12-13'',
         Types = Slice Types_array 0 2,
         Buffering = \<lparr>MaxItems = 500, MaxBytes = 1024 * 1024, TimeoutMs = 1000\<rparr>,
         Destination = \<lparr>Protocol = ''HTTP'',
                        URI = ''http://sandbox.localdomain:'' @ fmt_d DefaultTelemetryPort\<rparr>\<rparr>,
      arrays = (\<lambda>a. [])(Types_array := [''function'', ''platform''])\<rparr>"

text \<open>
  \<^verbatim>\<open>NewDefaultTelemetrySubscription\<close>: \<^verbatim>\<open>s := DefaultTelemetrySubscription; return &s\<close>. The
  struct is copied as the variable is now; the copy's \<open>Types\<close> is the same view of the
  same array.
\<close>

definition NewDefaultTelemetrySubscription :: "memory \<Rightarrow> TelemetrySubscription" where
  "NewDefaultTelemetrySubscription M = DefaultTelemetrySubscription M"

text \<open>
  The document \<^verbatim>\<open>json.Marshal\<close> writes for a subscription, keys from the struct tags; the
  elements of \<open>Types\<close> are read from the store as it is at the call.
\<close>

definition marshal_TelemetrySubscription :: "arrays \<Rightarrow> TelemetrySubscription \<Rightarrow> json" where
  "marshal_TelemetrySubscription h s =
     JObject
       [(''schemaVersion'', JString (SchemaVersion s)),
        (''types'', (case elems h (Types s) of
                       None \<Rightarrow> JNull | Some ts \<Rightarrow> JArray (map JString ts))),
        (''buffering'',
           JObject [(''maxItems'', JInt (MaxItems (Buffering s))),
                    (''maxBytes'', JInt (MaxBytes (Buffering s))),
                    (''timeoutMs'', JInt (TimeoutMs (Buffering s)))]),
        (''destination'',
           JObject [(''protocol'', JString (Protocol (Destination s))),
                    (''URI'', JString (URI (Destination s)))])]"

text \<open>
  \<^verbatim>\<open>func (c *Client) SubscribeTelemetry(ctx, subscription) error\<close>, given the memory at
  the call and the transport's answer; \<open>None\<close> is the nil subscription. The method
  writes nothing to the memory.
\<close>

definition SubscribeTelemetry ::
  "memory \<Rightarrow> Client \<Rightarrow> TelemetrySubscription option \<Rightarrow> error + response \<Rightarrow>
     error option \<times> action list" where
  "SubscribeTelemetry M c subscription doResult =
     (let u = lambdaTelemetryAPIEndpoint c;
          sub = (case subscription of None \<Rightarrow> NewDefaultTelemetrySubscription M | Some s \<Rightarrow> s);
          req = \<lparr>Method = ''PUT'', URL = u,
                 ReqHeader = [(lambdaExtensionNameHeader, [Name c]),
                              (lambdaExtensionIdentifierHeader, [extensionId c])],
                 ReqBody = Some (marshal_TelemetrySubscription (arrays M) sub)\<rparr>;
          tr = [Slog LevelInfo ''subscribing telemetry API'' None, HttpDo req]
      in case doResult of
           Inl err \<Rightarrow> (Some (Errorf ''failed to register extension: %w'' [ArgErr err]), tr)
         | Inr resp \<Rightarrow>
             if StatusCode resp \<noteq> 200 then
               (Some (Errorf ''failed to subscribe telemetry API: %d %s''
                        [ArgInt (StatusCode resp), ArgStr (RespBody resp)]), tr)
             else (None, tr @ [Slog LevelInfo ''subscribed telemetry API'' None]))"

section \<open>Specification side: what a payload says\<close>

text \<open>
  The definitions of this section are not code of the package. They say, for stating
  the claims about the decoder, what a well-formed payload is, what its discriminator
  is and which values it gives the fields, and the decoder is then compared with them.

  The content of a JSON object read off its members, without running the decoder: the
  values, in order, that the members whose key selects a field carry for it
  (\<open>get\<close> picks the values of the field's type), and the last of them.
\<close>

fun json_string :: "json \<Rightarrow> string option" where
  "json_string (JString s) = Some s"
| "json_string v = None"

fun json_int64 :: "json \<Rightarrow> int option" where
  "json_int64 (JInt n) = (if - (2 ^ 63) \<le> n \<and> n < 2 ^ 63 then Some n else None)"
| "json_int64 v = None"

fun json_object :: "json \<Rightarrow> (string \<times> json) list option" where
  "json_object (JObject kvs) = Some kvs"
| "json_object v = None"

definition member_values ::
  "(json \<Rightarrow> 'a option) \<Rightarrow> string \<Rightarrow> (string \<times> json) list \<Rightarrow> 'a list" where
  "member_values get name kvs =
     List.map_filter (\<lambda>(k, v). if is_field k name then get v else None) kvs"

definition last_value ::
  "(json \<Rightarrow> 'a option) \<Rightarrow> string \<Rightarrow> (string \<times> json) list \<Rightarrow> 'a option" where
  "last_value get name kvs =
     (if member_values get name kvs = [] then None
      else Some (last (member_values get name kvs)))"

text \<open>The members of all objects given for the field \<open>tracing\<close>, in order.\<close>

definition tracing_members :: "(string \<times> json) list \<Rightarrow> (string \<times> json) list" where
  "tracing_members kvs = concat (member_values json_object ''tracing'' kvs)"

text \<open>
  A member is well typed for a field when its key does not select the field, or its
  value is \<^verbatim>\<open>null\<close> or of the field's type.
\<close>

definition well_typed ::
  "(json \<Rightarrow> 'a option) \<Rightarrow> string \<Rightarrow> (string \<times> json) list \<Rightarrow> bool" where
  "well_typed get name kvs =
     list_all (\<lambda>(k, v). \<not> is_field k name \<or> v = JNull \<or> get v \<noteq> None) kvs"

definition well_formed_InvokeEvent :: "(string \<times> json) list \<Rightarrow> bool" where
  "well_formed_InvokeEvent kvs =
     (well_typed json_string ''eventType'' kvs \<and>
      well_typed json_int64 ''deadlineMs'' kvs \<and>
      well_typed json_string ''requestId'' kvs \<and>
      well_typed json_string ''invokedFunctionArn'' kvs \<and>
      well_typed json_object ''tracing'' kvs \<and>
      well_typed json_string ''type'' (tracing_members kvs) \<and>
      well_typed json_string ''value'' (tracing_members kvs))"

definition well_formed_ShutdownEvent :: "(string \<times> json) list \<Rightarrow> bool" where
  "well_formed_ShutdownEvent kvs =
     (well_typed json_string ''eventType'' kvs \<and>
      well_typed json_int64 ''deadlineMs'' kvs \<and>
      well_typed json_string ''shutdownReason'' kvs)"

text \<open>
  The discriminator of a payload: the last string given for \<open>eventType\<close>; a payload
  that is not an object, or has no such member, has none.
\<close>

definition discriminator :: "json \<Rightarrow> string option" where
  "discriminator v =
     (case v of JObject kvs \<Rightarrow> last_value json_string ''eventType'' kvs | _ \<Rightarrow> None)"

text \<open>A field's value from what the payload says: the last value given, else the zero value.\<close>

definition string_field :: "string \<Rightarrow> (string \<times> json) list \<Rightarrow> string" where
  "string_field name kvs = (case last_value json_string name kvs of None \<Rightarrow> '''' | Some s \<Rightarrow> s)"

definition int_field :: "string \<Rightarrow> (string \<times> json) list \<Rightarrow> int" where
  "int_field name kvs = (case last_value json_int64 name kvs of None \<Rightarrow> 0 | Some n \<Rightarrow> n)"

definition InvokeEvent_of :: "(string \<times> json) list \<Rightarrow> InvokeEvent" where
  "InvokeEvent_of kvs =
     \<lparr>iEventType = string_field ''eventType'' kvs,
      iDeadlineMs = int_field ''deadlineMs'' kvs,
      RequestID = string_field ''requestId'' kvs,
      InvokedFunctionArn = string_field ''invokedFunctionArn'' kvs,
      Tracing = \<lparr>TracingType = string_field ''type'' (tracing_members kvs),
                 TracingValue = string_field ''value'' (tracing_members kvs)\<rparr>\<rparr>"

definition ShutdownEvent_of :: "(string \<times> json) list \<Rightarrow> ShutdownEvent" where
  "ShutdownEvent_of kvs =
     \<lparr>sEventType = string_field ''eventType'' kvs,
      sDeadlineMs = int_field ''deadlineMs'' kvs,
      ShutdownReason = string_field ''shutdownReason'' kvs\<rparr>"

text \<open>The default subscription document, as the specification gives it.\<close>

definition documented_default :: json where
  "documented_default =
     JObject
       [(''schemaVersion'', JString ''2022-12-13''),
        (''types'', JArray [JString ''function'', JString ''platform'']),
        (''buffering'', JObject [(''maxItems'', JInt 500), (''maxBytes'', JInt 1048576),
                                 (''timeoutMs'', JInt 1000)]),
        (''destination'', JObject [(''protocol'', JString ''HTTP''),
                                   (''URI'', JString ''http://sandbox.localdomain:8080'')])]"

section \<open>Concrete inputs\<close>

text \<open>
  The payloads the mock host of \<^verbatim>\<open>api.go\<close> sends, the example event of the source's
  comments, and a payload of a kind the package does not know.
\<close>

definition invoke_payload :: string where
  \<open>invoke_payload = ''{"eventType": "INVOKE"}''\<close>

definition shutdown_payload :: string where
  \<open>shutdown_payload = ''{"eventType": "SHUTDOWN"}''\<close>

definition future_payload :: string where
  \<open>future_payload = ''{"eventType": "FUTURE", "deadlineMs": 676051}''\<close>

definition example_payload :: string where
  \<open>example_payload = ''{"eventType": "INVOKE", "deadlineMs": 676051, "requestId": "3da1f2dc", "invokedFunctionArn": "arn:aws:lambda:us-east-1:123456789012:function:ExtensionTest", "tracing": {"type": "X-Amzn-Trace-Id", "value": "Root=1-5f35ae12"}}''\<close>

definition example_shutdown_payload :: string where
  \<open>example_shutdown_payload = ''{"eventType": "SHUTDOWN", "shutdownReason": "spindown", "deadlineMs": 676051}''\<close>

definition register_body :: string where
  \<open>register_body = ''{"functionName": "helloWorld","functionVersion": "$LATEST","handler": "handler"}''\<close>

definition example_members :: "(string \<times> json) list" where
  "example_members =
     [(''eventType'', JString ''INVOKE''), (''deadlineMs'', JInt 676051),
      (''requestId'', JString ''3da1f2dc''),
      (''invokedFunctionArn'',
         JString ''arn:aws:lambda:us-east-1:123456789012:function:ExtensionTest''),
      (''tracing'', JObject [(''type'', JString ''X-Amzn-Trace-Id''),
                             (''value'', JString ''Root=1-5f35ae12'')])]"

definition future_members :: "(string \<times> json) list" where
  "future_members = [(''eventType'', JString ''FUTURE''), (''deadlineMs'', JInt 676051)]"

definition example_shutdown_members :: "(string \<times> json) list" where
  "example_shutdown_members =
     [(''eventType'', JString ''SHUTDOWN''), (''shutdownReason'', JString ''spindown''),
      (''deadlineMs'', JInt 676051)]"

text \<open>
  One concrete library for the closed theorems: it answers as encoding/json does on
  the byte strings above (each is a single JSON value) and reports a syntax error on
  every other byte string.
\<close>

definition mock_parse :: "string \<Rightarrow> error + json" where
  "mock_parse s =
     (case map_of
        [(invoke_payload, JObject [(''eventType'', JString ''INVOKE'')]),
         (shutdown_payload, JObject [(''eventType'', JString ''SHUTDOWN'')]),
         (future_payload, JObject future_members),
         (example_payload, JObject example_members),
         (example_shutdown_payload, JObject example_shutdown_members),
         (register_body, JObject [(''functionName'', JString ''helloWorld''),
                                  (''functionVersion'', JString ''$LATEST''),
                                  (''handler'', JString ''handler'')])] s of
        Some v \<Rightarrow> Inr v
      | None \<Rightarrow> Inl (External ''invalid character''))"

definition mock_lib :: jsonlib where
  "mock_lib = \<lparr>readValue = (\<lambda>body. case mock_parse body of Inl e \<Rightarrow> Inl e | Inr v \<Rightarrow> Inr body),
               parse = mock_parse\<rparr>"

definition fresh_client :: Client where
  "fresh_client =
     \<lparr>Name = ''ext'', CallbackInvoke = None, CallbackShutdown = None, extensionId = '''',
      lambdaExtensionAPIEndpoint = ''http://127.0.0.1:9001/2020-01-01/extension'',
      lambdaTelemetryAPIEndpoint = ''http://127.0.0.1:9001/2022-07-01/telemetry''\<rparr>"

definition callback_error :: error where
  "callback_error = External ''callback error''"

definition ok_invoke :: "InvokeEvent \<Rightarrow> error option" where
  "ok_invoke e = None"

definition ok_shutdown :: "ShutdownEvent \<Rightarrow> error option" where
  "ok_shutdown e = None"

definition failing_invoke :: "InvokeEvent \<Rightarrow> error option" where
  "failing_invoke e = Some callback_error"

definition failing_shutdown :: "ShutdownEvent \<Rightarrow> error option" where
  "failing_shutdown e = Some callback_error"

text \<open>A registered client with both callbacks set and succeeding, as in the package's test.\<close>

definition mock_client :: Client where
  "mock_client =
     fresh_client\<lparr>CallbackInvoke := Some ok_invoke, CallbackShutdown := Some ok_shutdown,
                  extensionId := ''0000-0000-0000-0000''\<rparr>"

text \<open>The same client with both callbacks failing.\<close>

definition failing_client :: Client where
  "failing_client =
     mock_client\<lparr>CallbackInvoke := Some failing_invoke,
                 CallbackShutdown := Some failing_shutdown\<rparr>"

text \<open>The events the decoder makes of the mock host's two payloads.\<close>

definition mock_invoke :: InvokeEvent where
  "mock_invoke = zero_InvokeEvent\<lparr>iEventType := ''INVOKE''\<rparr>"

definition mock_shutdown :: ShutdownEvent where
  "mock_shutdown = zero_ShutdownEvent\<lparr>sEventType := ''SHUTDOWN''\<rparr>"

definition mock_invoke_event :: Event where
  "mock_invoke_event = \<lparr>EvInvoke = Some mock_invoke, EvShutdown = None\<rparr>"

definition mock_shutdown_event :: Event where
  "mock_shutdown_event = \<lparr>EvInvoke = None, EvShutdown = Some mock_shutdown\<rparr>"

definition ok_response :: "string \<Rightarrow> response" where
  "ok_response body =
     \<lparr>StatusCode = 200, RespHeader = [(''Content-Type'', [''application/json''])],
      RespBody = body\<rparr>"

definition register_response :: "string \<Rightarrow> response" where
  "register_response ident =
     \<lparr>StatusCode = 200,
      RespHeader = [(''Content-Type'', [''application/json'']),
                    (lambdaExtensionIdentifierHeader, [ident])],
      RespBody = register_body\<rparr>"

definition event_poll :: "string \<Rightarrow> poll" where
  "event_poll body = \<lparr>answer = Inr (ok_response body), ctxDone = False\<rparr>"

definition failed_poll :: poll where
  "failed_poll = \<lparr>answer = Inl (External ''connection refused''), ctxDone = False\<rparr>"

definition cancelled_poll :: poll where
  "cancelled_poll = \<lparr>answer = Inl (External ''context canceled''), ctxDone = True\<rparr>"

text \<open>
  Two things an importer of the package can do before it subscribes. The first assigns a
  field of the exported variable (the values of the comment in the source):
  \<^verbatim>\<open>DefaultTelemetrySubscription.Buffering = TelemetryBuffering{1000, 256 * 1024, 100}\<close>.
  The second writes an element through a copy:
  \<^verbatim>\<open>s := NewDefaultTelemetrySubscription(); s.Types[0] = "extension"\<close>.
\<close>

definition reassigned_memory :: memory where
  "reassigned_memory =
     memory_init\<lparr>DefaultTelemetrySubscription :=
       (DefaultTelemetrySubscription memory_init)
         \<lparr>Buffering := \<lparr>MaxItems = 1000, MaxBytes = 256 * 1024, TimeoutMs = 100\<rparr>\<rparr>\<rparr>"

definition written_memory :: memory where
  "written_memory =
     (case slice_set (arrays memory_init)
             (Types (NewDefaultTelemetrySubscription memory_init)) 0 ''extension'' of
        None \<Rightarrow> memory_init
      | Some h \<Rightarrow> memory_init\<lparr>arrays := h\<rparr>)"

section \<open>Facts about the decoder\<close>

lemma member_values_Cons:
  "member_values get name ((k, v) # kvs) =
     (case (if is_field k name then get v else None) of
        None \<Rightarrow> member_values get name kvs
      | Some x \<Rightarrow> x # member_values get name kvs)"
  unfolding member_values_def by (simp add: map_filter_simps split: option.splits)

lemma last_value_Cons:
  "last_value get name ((k, v) # kvs) =
     (case last_value get name kvs of
        Some x \<Rightarrow> Some x
      | None \<Rightarrow> if is_field k name then get v else None)"
  by (simp add: last_value_def member_values_Cons split: option.splits)

lemma well_typed_Cons:
  "well_typed get name ((k, v) # kvs) =
     ((\<not> is_field k name \<or> v = JNull \<or> get v \<noteq> None) \<and> well_typed get name kvs)"
  by (simp add: well_typed_def)

lemma store_string_eq:
  "store_string f v (se, old) =
     (case json_string v of
        Some s \<Rightarrow> (se, s)
      | None \<Rightarrow> if v = JNull then (se, old)
                else (saveError se (UnmarshalTypeError (kind v) f), old))"
  by (cases v) simp_all

lemma store_int_eq:
  "store_int f v (se, old) =
     (case json_int64 v of
        Some n \<Rightarrow> (se, n)
      | None \<Rightarrow> if v = JNull then (se, old)
                else (saveError se (UnmarshalTypeError (kind v) f), old))"
  by (cases v) simp_all

text \<open>The string the decoder leaves in \<^verbatim>\<open>common.EventType\<close> is the payload's discriminator.\<close>

lemma fold_common_member_snd:
  "snd (fold common_member kvs (se, t)) =
     (case last_value json_string ''eventType'' kvs of None \<Rightarrow> t | Some s \<Rightarrow> s)"
proof (induction kvs arbitrary: se t)
  case Nil
  then show ?case by (simp add: last_value_def member_values_def map_filter_simps)
next
  case (Cons kv kvs)
  obtain k v where kv: "kv = (k, v)" by (cases kv)
  obtain se' t' where st: "common_member (k, v) (se, t) = (se', t')"
    by (cases "common_member (k, v) (se, t)")
  have t': "t' = (case (if is_field k ''eventType'' then json_string v else None) of
                    None \<Rightarrow> t | Some s \<Rightarrow> s)"
    using st by (auto simp: store_string_eq split: option.splits if_splits)
  show ?case
    using Cons.IH [of se' t'] st t' kv
    by (simp add: last_value_Cons split: option.splits)
qed

lemma fold_common_member_fst:
  assumes "well_typed json_string ''eventType'' kvs"
  shows "fst (fold common_member kvs (se, t)) = se"
  using assms
proof (induction kvs arbitrary: se t)
  case Nil
  then show ?case by simp
next
  case (Cons kv kvs)
  obtain k v where kv: "kv = (k, v)" by (cases kv)
  from Cons.prems kv have wt: "\<not> is_field k ''eventType'' \<or> v = JNull \<or> json_string v \<noteq> None"
    and rest: "well_typed json_string ''eventType'' kvs"
    by (simp_all add: well_typed_Cons)
  have "fst (common_member (k, v) (se, t)) = se"
    using wt by (cases v) auto
  then obtain t' where st: "common_member (k, v) (se, t) = (se, t')"
    by (cases "common_member (k, v) (se, t)") simp
  show ?case
    using Cons.IH [OF rest, of se t'] st kv by simp
qed

lemma unmarshal_common_snd:
  assumes "parse L data = Inr v"
  shows "snd (unmarshal_common L data '''') =
           (case discriminator v of None \<Rightarrow> '''' | Some s \<Rightarrow> s)"
  using assms
  by (cases v) (simp_all add: unmarshal_common_def discriminator_def fold_common_member_snd)

text \<open>A decoder that does not find one of the two kinds fails and touches nothing.\<close>

lemma UnmarshalJSON_other_kind:
  assumes "unmarshal_common L data '''' = (se, t)"
    and "t \<noteq> Invoke" and "t \<noteq> Shutdown"
  shows "\<exists>e. \<forall>r. UnmarshalJSON L data r = (Some e, r)"
proof (cases se)
  case None
  with assms have
    "\<forall>r. UnmarshalJSON L data r = (Some (Errorf ''unknown event type: %s'' [ArgStr t]), r)"
    by (simp add: UnmarshalJSON_def)
  then show ?thesis ..
next
  case (Some e)
  with assms have "\<forall>r. UnmarshalJSON L data r = (Some e, r)"
    by (simp add: UnmarshalJSON_def)
  then show ?thesis ..
qed

lemma foldName_fields:
  "foldName ''eventType'' = ''EVENTTYPE''"
  "foldName ''deadlineMs'' = ''DEADLINEMS''"
  "foldName ''requestId'' = ''REQUESTID''"
  "foldName ''invokedFunctionArn'' = ''INVOKEDFUNCTIONARN''"
  "foldName ''tracing'' = ''TRACING''"
  "foldName ''shutdownReason'' = ''SHUTDOWNREASON''"
  "foldName ''type'' = ''TYPE''"
  "foldName ''value'' = ''VALUE''"
  by code_simp+

lemma member_values_append:
  "member_values get name (xs @ ys) = member_values get name xs @ member_values get name ys"
  by (simp add: member_values_def map_filter_def)

lemma last_value_Nil: "last_value get name [] = None"
  by (simp add: last_value_def member_values_def)

lemma last_value_append:
  "last_value get name (xs @ ys) =
     (case last_value get name ys of Some y \<Rightarrow> Some y | None \<Rightarrow> last_value get name xs)"
  by (simp add: last_value_def member_values_append)

lemma well_typed_append:
  "well_typed get name (xs @ ys) = (well_typed get name xs \<and> well_typed get name ys)"
  by (simp add: well_typed_def)

lemma tracing_members_Cons:
  "tracing_members ((k, v) # kvs) =
     (case (if is_field k ''tracing'' then json_object v else None) of
        None \<Rightarrow> tracing_members kvs
      | Some ms \<Rightarrow> ms @ tracing_members kvs)"
  by (simp add: tracing_members_def member_values_Cons split: option.splits)

text \<open>The \<open>Tracing\<close> struct after its members have been stored.\<close>

lemma fold_Tracing_member_snd:
  "snd (fold Tracing_member ms (se, t)) =
     \<lparr>TracingType = (case last_value json_string ''type'' ms of
                       None \<Rightarrow> TracingType t | Some s \<Rightarrow> s),
      TracingValue = (case last_value json_string ''value'' ms of
                        None \<Rightarrow> TracingValue t | Some s \<Rightarrow> s)\<rparr>"
proof (induction ms arbitrary: se t)
  case Nil
  then show ?case by (simp add: last_value_Nil)
next
  case (Cons kv ms)
  obtain k v where kv: "kv = (k, v)" by (cases kv)
  obtain se' t' where st: "Tracing_member (k, v) (se, t) = (se', t')"
    by (cases "Tracing_member (k, v) (se, t)")
  have ty: "TracingType t' = (case (if is_field k ''type'' then json_string v else None) of
                                None \<Rightarrow> TracingType t | Some s \<Rightarrow> s)"
    using st
    by (auto simp: store_string_eq is_field_def foldName_fields
        split: option.splits if_splits prod.splits)
  have va: "TracingValue t' = (case (if is_field k ''value'' then json_string v else None) of
                                 None \<Rightarrow> TracingValue t | Some s \<Rightarrow> s)"
    using st
    by (auto simp: store_string_eq is_field_def foldName_fields
        split: option.splits if_splits prod.splits)
  show ?case
    using Cons.IH [of se' t'] st ty va kv
    by (simp add: last_value_Cons split: option.splits)
qed

lemma fold_Tracing_member_fst:
  assumes "well_typed json_string ''type'' ms" and "well_typed json_string ''value'' ms"
  shows "fst (fold Tracing_member ms (se, t)) = se"
  using assms
proof (induction ms arbitrary: se t)
  case Nil
  then show ?case by simp
next
  case (Cons kv ms)
  obtain k v where kv: "kv = (k, v)" by (cases kv)
  from Cons.prems kv have wt:
    "\<not> is_field k ''type'' \<or> v = JNull \<or> json_string v \<noteq> None"
    "\<not> is_field k ''value'' \<or> v = JNull \<or> json_string v \<noteq> None"
    and rest: "well_typed json_string ''type'' ms" "well_typed json_string ''value'' ms"
    by (simp_all add: well_typed_Cons)
  have "fst (Tracing_member (k, v) (se, t)) = se"
    using wt by (auto simp: store_string_eq split: option.splits prod.splits)
  then obtain t' where st: "Tracing_member (k, v) (se, t) = (se, t')"
    by (cases "Tracing_member (k, v) (se, t)") simp
  show ?case
    using Cons.IH [OF rest, of se t'] st kv by simp
qed

text \<open>
  A field that every member either leaves alone or overwrites with the value it
  carries for it ends up with the last value given.
\<close>

lemma fold_member_field:
  assumes step: "\<And>k v se r se' r'. f (k, v) (se, r) = (se', r') \<Longrightarrow>
      sel r' = (case (if is_field k name then get v else None) of
                  None \<Rightarrow> sel r | Some x \<Rightarrow> x)"
  shows "sel (snd (fold f kvs (se, r))) =
           (case last_value get name kvs of None \<Rightarrow> sel r | Some x \<Rightarrow> x)"
proof (induction kvs arbitrary: se r)
  case Nil
  then show ?case by (simp add: last_value_Nil)
next
  case (Cons kv kvs)
  obtain k v where kv: "kv = (k, v)" by (cases kv)
  obtain se' r' where st: "f (k, v) (se, r) = (se', r')"
    by (cases "f (k, v) (se, r)")
  show ?case
    using Cons.IH [of se' r'] st step [OF st] kv
    by (simp add: last_value_Cons split: option.splits)
qed

lemma InvokeEvent_member_step:
  assumes "InvokeEvent_member (k, v) (se, r) = (se', r')"
  shows "iEventType r' = (case (if is_field k ''eventType'' then json_string v else None) of
                            None \<Rightarrow> iEventType r | Some s \<Rightarrow> s)"
    and "iDeadlineMs r' = (case (if is_field k ''deadlineMs'' then json_int64 v else None) of
                             None \<Rightarrow> iDeadlineMs r | Some n \<Rightarrow> n)"
    and "RequestID r' = (case (if is_field k ''requestId'' then json_string v else None) of
                           None \<Rightarrow> RequestID r | Some s \<Rightarrow> s)"
    and "InvokedFunctionArn r' =
           (case (if is_field k ''invokedFunctionArn'' then json_string v else None) of
              None \<Rightarrow> InvokedFunctionArn r | Some s \<Rightarrow> s)"
    and "Tracing r' =
           (case (if is_field k ''tracing'' then json_object v else None) of
              None \<Rightarrow> Tracing r
            | Some ms \<Rightarrow> snd (fold Tracing_member ms (se, Tracing r)))"
proof -
  show "iEventType r' = (case (if is_field k ''eventType'' then json_string v else None) of
                            None \<Rightarrow> iEventType r | Some s \<Rightarrow> s)"
    using assms
    by (auto simp: store_string_eq store_int_eq is_field_def foldName_fields
        split: option.splits if_splits prod.splits)
  show "iDeadlineMs r' = (case (if is_field k ''deadlineMs'' then json_int64 v else None) of
                             None \<Rightarrow> iDeadlineMs r | Some n \<Rightarrow> n)"
    using assms
    by (auto simp: store_string_eq store_int_eq is_field_def foldName_fields
        split: option.splits if_splits prod.splits)
  show "RequestID r' = (case (if is_field k ''requestId'' then json_string v else None) of
                           None \<Rightarrow> RequestID r | Some s \<Rightarrow> s)"
    using assms
    by (auto simp: store_string_eq store_int_eq is_field_def foldName_fields
        split: option.splits if_splits prod.splits)
  show "InvokedFunctionArn r' =
           (case (if is_field k ''invokedFunctionArn'' then json_string v else None) of
              None \<Rightarrow> InvokedFunctionArn r | Some s \<Rightarrow> s)"
    using assms
    by (auto simp: store_string_eq store_int_eq is_field_def foldName_fields
        split: option.splits if_splits prod.splits)
  show "Tracing r' =
           (case (if is_field k ''tracing'' then json_object v else None) of
              None \<Rightarrow> Tracing r
            | Some ms \<Rightarrow> snd (fold Tracing_member ms (se, Tracing r)))"
    using assms
    by (cases v)
       (auto simp: store_string_eq store_int_eq is_field_def foldName_fields
        split: option.splits if_splits prod.splits)
qed

lemma fold_InvokeEvent_member_Tracing:
  "Tracing (snd (fold InvokeEvent_member kvs (se, r))) =
     \<lparr>TracingType = (case last_value json_string ''type'' (tracing_members kvs) of
                       None \<Rightarrow> TracingType (Tracing r) | Some s \<Rightarrow> s),
      TracingValue = (case last_value json_string ''value'' (tracing_members kvs) of
                        None \<Rightarrow> TracingValue (Tracing r) | Some s \<Rightarrow> s)\<rparr>"
proof (induction kvs arbitrary: se r)
  case Nil
  then show ?case by (simp add: tracing_members_def member_values_def last_value_Nil)
next
  case (Cons kv kvs)
  obtain k v where kv: "kv = (k, v)" by (cases kv)
  obtain se' r' where st: "InvokeEvent_member (k, v) (se, r) = (se', r')"
    by (cases "InvokeEvent_member (k, v) (se, r)")
  show ?case
    using Cons.IH [of se' r'] st InvokeEvent_member_step(5) [OF st] kv
    by (simp add: tracing_members_Cons last_value_append fold_Tracing_member_snd
        split: option.splits)
qed

lemma fold_InvokeEvent_member_fields:
  "iEventType (snd (fold InvokeEvent_member kvs (se, r))) =
     (case last_value json_string ''eventType'' kvs of None \<Rightarrow> iEventType r | Some x \<Rightarrow> x)"
  "iDeadlineMs (snd (fold InvokeEvent_member kvs (se, r))) =
     (case last_value json_int64 ''deadlineMs'' kvs of None \<Rightarrow> iDeadlineMs r | Some x \<Rightarrow> x)"
  "RequestID (snd (fold InvokeEvent_member kvs (se, r))) =
     (case last_value json_string ''requestId'' kvs of None \<Rightarrow> RequestID r | Some x \<Rightarrow> x)"
  "InvokedFunctionArn (snd (fold InvokeEvent_member kvs (se, r))) =
     (case last_value json_string ''invokedFunctionArn'' kvs of
        None \<Rightarrow> InvokedFunctionArn r | Some x \<Rightarrow> x)"
proof -
  show "iEventType (snd (fold InvokeEvent_member kvs (se, r))) =
     (case last_value json_string ''eventType'' kvs of None \<Rightarrow> iEventType r | Some x \<Rightarrow> x)"
    by (rule fold_member_field [where sel = iEventType and get = json_string])
       (rule InvokeEvent_member_step(1))
  show "iDeadlineMs (snd (fold InvokeEvent_member kvs (se, r))) =
     (case last_value json_int64 ''deadlineMs'' kvs of None \<Rightarrow> iDeadlineMs r | Some x \<Rightarrow> x)"
    by (rule fold_member_field [where sel = iDeadlineMs and get = json_int64])
       (rule InvokeEvent_member_step(2))
  show "RequestID (snd (fold InvokeEvent_member kvs (se, r))) =
     (case last_value json_string ''requestId'' kvs of None \<Rightarrow> RequestID r | Some x \<Rightarrow> x)"
    by (rule fold_member_field [where sel = RequestID and get = json_string])
       (rule InvokeEvent_member_step(3))
  show "InvokedFunctionArn (snd (fold InvokeEvent_member kvs (se, r))) =
     (case last_value json_string ''invokedFunctionArn'' kvs of
        None \<Rightarrow> InvokedFunctionArn r | Some x \<Rightarrow> x)"
    by (rule fold_member_field [where sel = InvokedFunctionArn and get = json_string])
       (rule InvokeEvent_member_step(4))
qed

lemma fold_InvokeEvent_member_snd:
  "snd (fold InvokeEvent_member kvs (se, zero_InvokeEvent)) = InvokeEvent_of kvs"
  by (rule InvokeEvent.equality)
     (simp_all add: fold_InvokeEvent_member_fields fold_InvokeEvent_member_Tracing
        InvokeEvent_of_def string_field_def int_field_def zero_InvokeEvent_def
        zero_Tracing_def split: option.splits)

lemma InvokeEvent_member_fst:
  assumes "\<not> is_field k ''eventType'' \<or> v = JNull \<or> json_string v \<noteq> None"
    and "\<not> is_field k ''deadlineMs'' \<or> v = JNull \<or> json_int64 v \<noteq> None"
    and "\<not> is_field k ''requestId'' \<or> v = JNull \<or> json_string v \<noteq> None"
    and "\<not> is_field k ''invokedFunctionArn'' \<or> v = JNull \<or> json_string v \<noteq> None"
    and "\<not> is_field k ''tracing'' \<or> v = JNull \<or> json_object v \<noteq> None"
    and "\<And>ms. is_field k ''tracing'' \<Longrightarrow> v = JObject ms \<Longrightarrow>
           well_typed json_string ''type'' ms \<and> well_typed json_string ''value'' ms"
  shows "fst (InvokeEvent_member (k, v) (se, r)) = se"
proof (cases v)
  case (JObject ms)
  show ?thesis
  proof (cases "is_field k ''tracing''")
    case True
    then have "fst (fold Tracing_member ms (se, Tracing r)) = se"
      using assms(6) [OF True JObject] by (simp add: fold_Tracing_member_fst)
    then show ?thesis
      using True JObject assms(1-4)
      by (auto simp: is_field_def foldName_fields split: prod.splits)
  next
    case False
    then show ?thesis
      using JObject assms(1-4) by (auto split: prod.splits)
  qed
qed (use assms(1-5) in \<open>auto simp: store_string_eq store_int_eq split: prod.splits if_splits\<close>)

lemma fold_InvokeEvent_member_fst:
  assumes "well_formed_InvokeEvent kvs"
  shows "fst (fold InvokeEvent_member kvs (se, r)) = se"
  using assms
proof (induction kvs arbitrary: se r)
  case Nil
  then show ?case by simp
next
  case (Cons kv kvs)
  obtain k v where kv: "kv = (k, v)" by (cases kv)
  from Cons.prems kv have wf:
    "\<not> is_field k ''eventType'' \<or> v = JNull \<or> json_string v \<noteq> None"
    "\<not> is_field k ''deadlineMs'' \<or> v = JNull \<or> json_int64 v \<noteq> None"
    "\<not> is_field k ''requestId'' \<or> v = JNull \<or> json_string v \<noteq> None"
    "\<not> is_field k ''invokedFunctionArn'' \<or> v = JNull \<or> json_string v \<noteq> None"
    "\<not> is_field k ''tracing'' \<or> v = JNull \<or> json_object v \<noteq> None"
    and tr: "well_typed json_string ''type'' (tracing_members ((k, v) # kvs))"
      "well_typed json_string ''value'' (tracing_members ((k, v) # kvs))"
    and rest0: "well_typed json_string ''eventType'' kvs"
      "well_typed json_int64 ''deadlineMs'' kvs"
      "well_typed json_string ''requestId'' kvs"
      "well_typed json_string ''invokedFunctionArn'' kvs"
      "well_typed json_object ''tracing'' kvs"
    by (simp_all add: well_formed_InvokeEvent_def well_typed_Cons)
  have nested: "well_typed json_string ''type'' ms \<and> well_typed json_string ''value'' ms"
    if "is_field k ''tracing''" "v = JObject ms" for ms
    using tr that by (simp add: tracing_members_Cons well_typed_append)
  have rest1: "well_typed json_string ''type'' (tracing_members kvs) \<and>
               well_typed json_string ''value'' (tracing_members kvs)"
    using tr by (auto simp: tracing_members_Cons well_typed_append split: option.splits if_splits)
  have rest: "well_formed_InvokeEvent kvs"
    using rest0 rest1 by (simp add: well_formed_InvokeEvent_def)
  have "fst (InvokeEvent_member (k, v) (se, r)) = se"
    using wf nested by (rule InvokeEvent_member_fst)
  then obtain r' where st: "InvokeEvent_member (k, v) (se, r) = (se, r')"
    by (cases "InvokeEvent_member (k, v) (se, r)") simp
  show ?case
    using Cons.IH [OF rest, of se r'] st kv by simp
qed

lemma ShutdownEvent_member_step:
  assumes "ShutdownEvent_member (k, v) (se, r) = (se', r')"
  shows "sEventType r' = (case (if is_field k ''eventType'' then json_string v else None) of
                            None \<Rightarrow> sEventType r | Some s \<Rightarrow> s)"
    and "sDeadlineMs r' = (case (if is_field k ''deadlineMs'' then json_int64 v else None) of
                             None \<Rightarrow> sDeadlineMs r | Some n \<Rightarrow> n)"
    and "ShutdownReason r' =
           (case (if is_field k ''shutdownReason'' then json_string v else None) of
              None \<Rightarrow> ShutdownReason r | Some s \<Rightarrow> s)"
  using assms
  by (auto simp: store_string_eq store_int_eq is_field_def foldName_fields
      split: option.splits if_splits prod.splits)

lemma fold_ShutdownEvent_member_fields:
  "sEventType (snd (fold ShutdownEvent_member kvs (se, r))) =
     (case last_value json_string ''eventType'' kvs of None \<Rightarrow> sEventType r | Some x \<Rightarrow> x)"
  "sDeadlineMs (snd (fold ShutdownEvent_member kvs (se, r))) =
     (case last_value json_int64 ''deadlineMs'' kvs of None \<Rightarrow> sDeadlineMs r | Some x \<Rightarrow> x)"
  "ShutdownReason (snd (fold ShutdownEvent_member kvs (se, r))) =
     (case last_value json_string ''shutdownReason'' kvs of
        None \<Rightarrow> ShutdownReason r | Some x \<Rightarrow> x)"
proof -
  show "sEventType (snd (fold ShutdownEvent_member kvs (se, r))) =
     (case last_value json_string ''eventType'' kvs of None \<Rightarrow> sEventType r | Some x \<Rightarrow> x)"
    by (rule fold_member_field [where sel = sEventType and get = json_string])
       (rule ShutdownEvent_member_step(1))
  show "sDeadlineMs (snd (fold ShutdownEvent_member kvs (se, r))) =
     (case last_value json_int64 ''deadlineMs'' kvs of None \<Rightarrow> sDeadlineMs r | Some x \<Rightarrow> x)"
    by (rule fold_member_field [where sel = sDeadlineMs and get = json_int64])
       (rule ShutdownEvent_member_step(2))
  show "ShutdownReason (snd (fold ShutdownEvent_member kvs (se, r))) =
     (case last_value json_string ''shutdownReason'' kvs of
        None \<Rightarrow> ShutdownReason r | Some x \<Rightarrow> x)"
    by (rule fold_member_field [where sel = ShutdownReason and get = json_string])
       (rule ShutdownEvent_member_step(3))
qed

lemma fold_ShutdownEvent_member_snd:
  "snd (fold ShutdownEvent_member kvs (se, zero_ShutdownEvent)) = ShutdownEvent_of kvs"
  by (rule ShutdownEvent.equality)
     (simp_all add: fold_ShutdownEvent_member_fields ShutdownEvent_of_def string_field_def
        int_field_def zero_ShutdownEvent_def split: option.splits)

lemma fold_ShutdownEvent_member_fst:
  assumes "well_formed_ShutdownEvent kvs"
  shows "fst (fold ShutdownEvent_member kvs (se, r)) = se"
  using assms
proof (induction kvs arbitrary: se r)
  case Nil
  then show ?case by simp
next
  case (Cons kv kvs)
  obtain k v where kv: "kv = (k, v)" by (cases kv)
  from Cons.prems kv have wf:
    "\<not> is_field k ''eventType'' \<or> v = JNull \<or> json_string v \<noteq> None"
    "\<not> is_field k ''deadlineMs'' \<or> v = JNull \<or> json_int64 v \<noteq> None"
    "\<not> is_field k ''shutdownReason'' \<or> v = JNull \<or> json_string v \<noteq> None"
    and rest: "well_formed_ShutdownEvent kvs"
    by (simp_all add: well_formed_ShutdownEvent_def well_typed_Cons)
  have "fst (ShutdownEvent_member (k, v) (se, r)) = se"
    using wf by (auto simp: store_string_eq store_int_eq split: option.splits prod.splits)
  then obtain r' where st: "ShutdownEvent_member (k, v) (se, r) = (se, r')"
    by (cases "ShutdownEvent_member (k, v) (se, r)") simp
  show ?case
    using Cons.IH [OF rest, of se r'] st kv by simp
qed

text \<open>
  After a successful decode on the zero \<open>Event\<close> exactly one pointer is set, and so it is
  for every event a fetch returns.
\<close>

lemma UnmarshalJSON_zero_one_variant:
  assumes "UnmarshalJSON L data zero_Event = (None, ev)"
  shows "(EvInvoke ev \<noteq> None \<and> EvShutdown ev = None) \<or>
         (EvInvoke ev = None \<and> EvShutdown ev \<noteq> None)"
  using assms
  by (auto simp: UnmarshalJSON_def zero_Event_def split: prod.splits option.splits if_splits)

lemma fetchNextEvent_one_variant:
  assumes "fst (fetchNextEvent L c a) = Inr ev"
  shows "(EvInvoke ev \<noteq> None \<and> EvShutdown ev = None) \<or>
         (EvInvoke ev = None \<and> EvShutdown ev \<noteq> None)"
proof -
  from assms obtain data where "UnmarshalJSON L data zero_Event = (None, ev)"
    by (auto simp: fetchNextEvent_def Decode_Event_def
        split: sum.splits if_splits prod.splits option.splits)
  then show ?thesis by (rule UnmarshalJSON_zero_one_variant)
qed

section \<open>Claims about the event decoder\<close>

text \<open>
  C5. For a payload that is well-formed JSON, an object whose members are well typed for
  the fields of the variant, with discriminator \<^verbatim>\<open>"INVOKE"\<close>, the decoder (on the zero
  \<open>Event\<close>) succeeds; the Invoke variant is set and holds what the payload says (for each
  field the last value given, the zero value when none is given; its event type is
  \<^verbatim>\<open>"INVOKE"\<close>), and the Shutdown variant is nil. Symmetrically for \<^verbatim>\<open>"SHUTDOWN"\<close>.
\<close>

theorem UnmarshalJSON_well_formed:
  assumes "parse L data = Inr (JObject kvs)"
  shows "(well_formed_InvokeEvent kvs \<and> discriminator (JObject kvs) = Some Invoke \<longrightarrow>
            UnmarshalJSON L data zero_Event =
              (None, \<lparr>EvInvoke = Some (InvokeEvent_of kvs), EvShutdown = None\<rparr>) \<and>
            iEventType (InvokeEvent_of kvs) = Invoke) \<and>
         (well_formed_ShutdownEvent kvs \<and> discriminator (JObject kvs) = Some Shutdown \<longrightarrow>
            UnmarshalJSON L data zero_Event =
              (None, \<lparr>EvInvoke = None, EvShutdown = Some (ShutdownEvent_of kvs)\<rparr>) \<and>
            sEventType (ShutdownEvent_of kvs) = Shutdown)"
proof (intro conjI impI)
  assume a: "well_formed_InvokeEvent kvs \<and> discriminator (JObject kvs) = Some Invoke"
  then have wt: "well_typed json_string ''eventType'' kvs"
    and lv: "last_value json_string ''eventType'' kvs = Some Invoke"
    by (simp_all add: well_formed_InvokeEvent_def discriminator_def)
  have "unmarshal_common L data '''' = fold common_member kvs (None, '''')"
    using assms by (simp add: unmarshal_common_def)
  then have common: "unmarshal_common L data '''' = (None, Invoke)"
    using fold_common_member_fst [OF wt, of None "''''"]
      fold_common_member_snd [of kvs None "''''"] lv
    by (simp add: prod_eq_iff)
  have "unmarshal_InvokeEvent L data zero_InvokeEvent =
          fold InvokeEvent_member kvs (None, zero_InvokeEvent)"
    using assms by (simp add: unmarshal_InvokeEvent_def)
  then have "unmarshal_InvokeEvent L data zero_InvokeEvent = (None, InvokeEvent_of kvs)"
    using a fold_InvokeEvent_member_fst [of kvs None zero_InvokeEvent]
      fold_InvokeEvent_member_snd [of kvs None]
    by (simp add: prod_eq_iff)
  with common show "UnmarshalJSON L data zero_Event =
      (None, \<lparr>EvInvoke = Some (InvokeEvent_of kvs), EvShutdown = None\<rparr>)"
    by (simp add: UnmarshalJSON_def zero_Event_def)
  show "iEventType (InvokeEvent_of kvs) = Invoke"
    using lv by (simp add: InvokeEvent_of_def string_field_def)
next
  assume a: "well_formed_ShutdownEvent kvs \<and> discriminator (JObject kvs) = Some Shutdown"
  then have wt: "well_typed json_string ''eventType'' kvs"
    and lv: "last_value json_string ''eventType'' kvs = Some Shutdown"
    by (simp_all add: well_formed_ShutdownEvent_def discriminator_def)
  have "unmarshal_common L data '''' = fold common_member kvs (None, '''')"
    using assms by (simp add: unmarshal_common_def)
  then have common: "unmarshal_common L data '''' = (None, Shutdown)"
    using fold_common_member_fst [OF wt, of None "''''"]
      fold_common_member_snd [of kvs None "''''"] lv
    by (simp add: prod_eq_iff)
  have "unmarshal_ShutdownEvent L data zero_ShutdownEvent =
          fold ShutdownEvent_member kvs (None, zero_ShutdownEvent)"
    using assms by (simp add: unmarshal_ShutdownEvent_def)
  then have "unmarshal_ShutdownEvent L data zero_ShutdownEvent = (None, ShutdownEvent_of kvs)"
    using a fold_ShutdownEvent_member_fst [of kvs None zero_ShutdownEvent]
      fold_ShutdownEvent_member_snd [of kvs None]
    by (simp add: prod_eq_iff)
  moreover have "Shutdown \<noteq> Invoke"
    by (simp add: Shutdown_def Invoke_def)
  ultimately show "UnmarshalJSON L data zero_Event =
      (None, \<lparr>EvInvoke = None, EvShutdown = Some (ShutdownEvent_of kvs)\<rparr>)"
    using common by (simp add: UnmarshalJSON_def zero_Event_def)
  show "sEventType (ShutdownEvent_of kvs) = Shutdown"
    using lv by (simp add: ShutdownEvent_of_def string_field_def)
qed

lemmas payload_simps = well_formed_InvokeEvent_def well_formed_ShutdownEvent_def well_typed_def
  example_members_def example_shutdown_members_def is_field_def foldName_fields
  tracing_members_def member_values_def map_filter_simps discriminator_def last_value_def
  InvokeEvent_of_def ShutdownEvent_of_def string_field_def int_field_def Invoke_def Shutdown_def

theorem UnmarshalJSON_well_formed_witness:
  "parse mock_lib example_payload = Inr (JObject example_members) \<and>
   well_formed_InvokeEvent example_members \<and>
   discriminator (JObject example_members) = Some Invoke \<and>
   UnmarshalJSON mock_lib example_payload zero_Event =
     (None,
      \<lparr>EvInvoke = Some
         \<lparr>iEventType = ''INVOKE'', iDeadlineMs = 676051, RequestID = ''3da1f2dc'',
          InvokedFunctionArn = ''arn:aws:lambda:us-east-1:123456789012:function:ExtensionTest'',
          Tracing = \<lparr>TracingType = ''X-Amzn-Trace-Id'', TracingValue = ''Root=1-5f35ae12''\<rparr>\<rparr>,
       EvShutdown = None\<rparr>) \<and>
   parse mock_lib example_shutdown_payload = Inr (JObject example_shutdown_members) \<and>
   well_formed_ShutdownEvent example_shutdown_members \<and>
   discriminator (JObject example_shutdown_members) = Some Shutdown \<and>
   UnmarshalJSON mock_lib example_shutdown_payload zero_Event =
     (None,
      \<lparr>EvInvoke = None,
       EvShutdown = Some \<lparr>sEventType = ''SHUTDOWN'', sDeadlineMs = 676051,
                          ShutdownReason = ''spindown''\<rparr>\<rparr>)"
proof -
  have a: "parse mock_lib example_payload = Inr (JObject example_members)"
    by code_simp
  have b: "well_formed_InvokeEvent example_members"
    by (simp add: payload_simps)
  have c: "discriminator (JObject example_members) = Some Invoke"
    by (simp add: payload_simps)
  have d: "InvokeEvent_of example_members =
     \<lparr>iEventType = ''INVOKE'', iDeadlineMs = 676051, RequestID = ''3da1f2dc'',
      InvokedFunctionArn = ''arn:aws:lambda:us-east-1:123456789012:function:ExtensionTest'',
      Tracing = \<lparr>TracingType = ''X-Amzn-Trace-Id'', TracingValue = ''Root=1-5f35ae12''\<rparr>\<rparr>"
    by (simp add: payload_simps)
  have e: "parse mock_lib example_shutdown_payload = Inr (JObject example_shutdown_members)"
    by code_simp
  have f: "well_formed_ShutdownEvent example_shutdown_members"
    by (simp add: payload_simps)
  have g: "discriminator (JObject example_shutdown_members) = Some Shutdown"
    by (simp add: payload_simps)
  have h: "ShutdownEvent_of example_shutdown_members =
     \<lparr>sEventType = ''SHUTDOWN'', sDeadlineMs = 676051, ShutdownReason = ''spindown''\<rparr>"
    by (simp add: payload_simps)
  from UnmarshalJSON_well_formed [OF a] b c d
  have i: "UnmarshalJSON mock_lib example_payload zero_Event =
     (None,
      \<lparr>EvInvoke = Some
         \<lparr>iEventType = ''INVOKE'', iDeadlineMs = 676051, RequestID = ''3da1f2dc'',
          InvokedFunctionArn = ''arn:aws:lambda:us-east-1:123456789012:function:ExtensionTest'',
          Tracing = \<lparr>TracingType = ''X-Amzn-Trace-Id'', TracingValue = ''Root=1-5f35ae12''\<rparr>\<rparr>,
       EvShutdown = None\<rparr>)"
    by simp
  from UnmarshalJSON_well_formed [OF e] f g h
  have j: "UnmarshalJSON mock_lib example_shutdown_payload zero_Event =
     (None,
      \<lparr>EvInvoke = None,
       EvShutdown = Some \<lparr>sEventType = ''SHUTDOWN'', sDeadlineMs = 676051,
                          ShutdownReason = ''spindown''\<rparr>\<rparr>)"
    by simp
  from a b c e f g i j show ?thesis by blast
qed

text \<open>
  C6. When the payload is not well-formed JSON, or is well formed and has no
  discriminator (it is not an object, or no member gives \<open>eventType\<close> a string), or
  has a discriminator other than \<^verbatim>\<open>"INVOKE"\<close> and \<^verbatim>\<open>"SHUTDOWN"\<close>, the decoder returns an error
  and leaves its receiver as it was: on the zero \<open>Event\<close> both variants stay nil, and
  \<^verbatim>\<open>Decode\<close> of a body framed to such a payload fails.
\<close>

theorem UnmarshalJSON_rejects:
  assumes "(\<exists>e. parse L data = Inl e) \<or>
           (\<exists>v. parse L data = Inr v \<and> discriminator v \<noteq> Some Invoke \<and>
                discriminator v \<noteq> Some Shutdown)"
  shows "\<exists>e. UnmarshalJSON L data r = (Some e, r) \<and>
             UnmarshalJSON L data zero_Event =
               (Some e, \<lparr>EvInvoke = None, EvShutdown = None\<rparr>) \<and>
             (readValue L body = Inr data \<longrightarrow> Decode_Event L body = Inl e)"
proof -
  have "\<exists>e. \<forall>r. UnmarshalJSON L data r = (Some e, r)"
    using assms
  proof (elim disjE exE conjE)
    fix e assume "parse L data = Inl e"
    then have "\<forall>r. UnmarshalJSON L data r = (Some e, r)"
      by (simp add: UnmarshalJSON_def unmarshal_common_def)
    then show ?thesis ..
  next
    fix v assume v: "parse L data = Inr v"
      and d: "discriminator v \<noteq> Some Invoke" "discriminator v \<noteq> Some Shutdown"
    obtain se t where st: "unmarshal_common L data '''' = (se, t)"
      by (cases "unmarshal_common L data ''''")
    have "t \<noteq> Invoke" "t \<noteq> Shutdown"
      using d unmarshal_common_snd [OF v] st
      by (auto simp: Invoke_def Shutdown_def split: option.splits)
    then show ?thesis
      using st by (rule UnmarshalJSON_other_kind [rotated])
  qed
  then obtain e where e: "\<And>r. UnmarshalJSON L data r = (Some e, r)" by blast
  have "UnmarshalJSON L data zero_Event = (Some e, \<lparr>EvInvoke = None, EvShutdown = None\<rparr>)"
    using e [of zero_Event] by (simp add: zero_Event_def)
  moreover have "readValue L body = Inr data \<longrightarrow> Decode_Event L body = Inl e"
    using e [of zero_Event] by (simp add: Decode_Event_def)
  ultimately show ?thesis using e [of r] by blast
qed

theorem UnmarshalJSON_rejects_witness:
  "parse mock_lib ''<html>'' = Inl (External ''invalid character'') \<and>
   (\<exists>e. UnmarshalJSON mock_lib ''<html>'' mock_invoke_event = (Some e, mock_invoke_event)) \<and>
   parse mock_lib future_payload = Inr (JObject future_members) \<and>
   discriminator (JObject future_members) = Some ''FUTURE'' \<and>
   readValue mock_lib future_payload = Inr future_payload \<and>
   (\<exists>e. UnmarshalJSON mock_lib future_payload zero_Event =
           (Some e, \<lparr>EvInvoke = None, EvShutdown = None\<rparr>) \<and>
        Decode_Event mock_lib future_payload = Inl e)"
proof -
  have a: "parse mock_lib ''<html>'' = Inl (External ''invalid character'')"
    by code_simp
  have b: "parse mock_lib future_payload = Inr (JObject future_members)"
    by code_simp
  have c: "discriminator (JObject future_members) = Some ''FUTURE''"
    by code_simp
  have d: "readValue mock_lib future_payload = Inr future_payload"
    by code_simp
  have c': "discriminator (JObject future_members) \<noteq> Some Invoke \<and>
            discriminator (JObject future_members) \<noteq> Some Shutdown"
    using c by (simp add: Invoke_def Shutdown_def)
  from UnmarshalJSON_rejects [of mock_lib "''<html>''" mock_invoke_event "''''"] a
  have r1: "\<exists>e. UnmarshalJSON mock_lib ''<html>'' mock_invoke_event = (Some e, mock_invoke_event)"
    by blast
  from UnmarshalJSON_rejects [of mock_lib future_payload zero_Event future_payload] b c' d
  have r2: "\<exists>e. UnmarshalJSON mock_lib future_payload zero_Event =
                  (Some e, \<lparr>EvInvoke = None, EvShutdown = None\<rparr>) \<and>
               Decode_Event mock_lib future_payload = Inl e"
    by blast
  from a b c d r1 r2 show ?thesis by blast
qed

section \<open>Facts about the loop\<close>

lemma requests_append: "requests (xs @ ys) = requests xs @ requests ys"
  by (induction xs rule: requests.induct) simp_all

lemma requests_nextEventRequest: "length (requests (nextEventRequest c)) = 1"
  by (simp add: nextEventRequest_def)

lemma fetchNextEvent_actions: "snd (fetchNextEvent L c a) = nextEventRequest c"
  by (simp add: fetchNextEvent_def split: sum.splits)

lemma requests_Run_dispatch: "requests (snd (Run_dispatch c ev)) = []"
  by (simp add: Run_dispatch_def split: option.splits)

lemma Run_body_fetch_failed:
  assumes "fst (fetchNextEvent L c (answer p)) = Inl err"
  shows "Run_body L c p =
           (if ctxDone p then (Return None, nextEventRequest c)
            else (Continue, nextEventRequest c @
                    [Slog LevelError ''failed to fetch next event'' (Some err)]))"
proof -
  have "fetchNextEvent L c (answer p) = (Inl err, nextEventRequest c)"
    using assms fetchNextEvent_actions [of L c "answer p"] by (simp add: prod_eq_iff)
  then show ?thesis by (simp add: Run_body_def)
qed

lemma Run_body_fetched:
  assumes "fst (fetchNextEvent L c (answer p)) = Inr ev"
  shows "Run_body L c p =
           (fst (Run_dispatch c ev), nextEventRequest c @ snd (Run_dispatch c ev))"
proof -
  have "fetchNextEvent L c (answer p) = (Inr ev, nextEventRequest c)"
    using assms fetchNextEvent_actions [of L c "answer p"] by (simp add: prod_eq_iff)
  then show ?thesis by (simp add: Run_body_def split: prod.splits)
qed

lemma requests_Run_body: "length (requests (snd (Run_body L c p))) = 1"
proof (cases "fst (fetchNextEvent L c (answer p))")
  case (Inl err)
  then show ?thesis
    by (simp add: Run_body_fetch_failed requests_append requests_nextEventRequest)
next
  case (Inr ev)
  then show ?thesis
    by (simp add: Run_body_fetched requests_append requests_nextEventRequest
        requests_Run_dispatch)
qed

lemma Run_dispatch_shutdown:
  assumes "EvInvoke ev = None \<and> EvShutdown ev = Some se"
  shows "fst (Run_dispatch c ev) =
           Return (case CallbackShutdown c of
                     None \<Rightarrow> None
                   | Some cb \<Rightarrow>
                      (case cb se of
                         None \<Rightarrow> None
                       | Some err \<Rightarrow> Some (Errorf ''shutdown callback failed: %w'' [ArgErr err])))"
  using assms by (simp add: Run_dispatch_def split: option.splits)

text \<open>A pass that goes round again hands the rest of the script to the loop.\<close>

lemma Run_loop_Continue:
  assumes "fst (Run_body L c p) = Continue"
  shows "Run_loop L c (p # ps) =
           (fst (Run_loop L c ps), snd (Run_body L c p) @ snd (Run_loop L c ps))"
  using assms by (cases "Run_body L c p") (simp split: prod.splits)

lemma Run_loop_Return:
  assumes "fst (Run_body L c p) = Return r"
  shows "Run_loop L c (p # ps) = (Returned r, snd (Run_body L c p))"
  using assms by (cases "Run_body L c p") simp

lemma Run_loop_prefix:
  assumes "\<forall>q \<in> set pre. fst (Run_body L c q) = Continue"
  shows "fst (Run_loop L c (pre @ rest)) = fst (Run_loop L c rest) \<and>
         length (requests (snd (Run_loop L c (pre @ rest)))) =
           length pre + length (requests (snd (Run_loop L c rest)))"
  using assms
proof (induction pre)
  case Nil
  then show ?case by simp
next
  case (Cons q pre)
  then have q: "fst (Run_body L c q) = Continue"
    and ih: "fst (Run_loop L c (pre @ rest)) = fst (Run_loop L c rest)"
      "length (requests (snd (Run_loop L c (pre @ rest)))) =
         length pre + length (requests (snd (Run_loop L c rest)))"
    by simp_all
  show ?case
    using Run_loop_Continue [OF q, of "pre @ rest"] ih
    by (simp add: requests_append requests_Run_body)
qed

lemma Run_loop_actions_nonempty: "snd (Run_loop L c ps) \<noteq> []"
proof (cases ps)
  case Nil
  then show ?thesis by (simp add: nextEventRequest_def)
next
  case (Cons p ps')
  have "snd (Run_body L c p) \<noteq> []"
    by (cases "fst (fetchNextEvent L c (answer p))")
       (simp_all add: Run_body_fetch_failed Run_body_fetched nextEventRequest_def)
  then show ?thesis
    using Cons by (cases "Run_body L c p") (auto split: step.splits prod.splits)
qed

lemma Run_loop_prefix_last:
  assumes "\<forall>q \<in> set pre. fst (Run_body L c q) = Continue"
  shows "last (snd (Run_loop L c (pre @ rest))) = last (snd (Run_loop L c rest))"
  using assms
proof (induction pre)
  case Nil
  then show ?case by simp
next
  case (Cons q pre)
  then have q: "fst (Run_body L c q) = Continue"
    and ih: "last (snd (Run_loop L c (pre @ rest))) = last (snd (Run_loop L c rest))"
    by simp_all
  show ?case
    using Run_loop_Continue [OF q, of "pre @ rest"] ih
      Run_loop_actions_nonempty [of L c "pre @ rest"]
    by simp
qed

text \<open>The warning of the loop's last branch is never logged.\<close>

lemma Run_dispatch_no_unknown:
  assumes "(EvInvoke ev \<noteq> None \<and> EvShutdown ev = None) \<or>
           (EvInvoke ev = None \<and> EvShutdown ev \<noteq> None)"
  shows "Slog LevelWarn ''unknown event received'' None \<notin> set (snd (Run_dispatch c ev))"
  using assms by (auto simp: Run_dispatch_def split: option.splits)

lemma Run_body_no_unknown:
  "Slog LevelWarn ''unknown event received'' None \<notin> set (snd (Run_body L c p))"
proof (cases "fst (fetchNextEvent L c (answer p))")
  case (Inl err)
  then show ?thesis
    by (simp add: Run_body_fetch_failed nextEventRequest_def)
next
  case (Inr ev)
  then show ?thesis
    using Run_dispatch_no_unknown [OF fetchNextEvent_one_variant [OF Inr], of c]
    by (simp add: Run_body_fetched nextEventRequest_def)
qed

lemma Run_loop_no_unknown:
  "Slog LevelWarn ''unknown event received'' None \<notin> set (snd (Run_loop L c script))"
proof (induction script)
  case Nil
  then show ?case by (simp add: nextEventRequest_def)
next
  case (Cons p ps)
  show ?case
  proof (cases "fst (Run_body L c p)")
    case Continue
    then show ?thesis
      using Run_loop_Continue [OF Continue, of ps] Cons.IH Run_body_no_unknown [of L c p]
      by simp
  next
    case (Return r)
    then show ?thesis
      using Run_loop_Return [OF Return, of ps] Run_body_no_unknown [of L c p]
      by simp
  qed
qed

section \<open>Claims about the event loop\<close>

text \<open>
  C4. A client whose session identifier is empty (no successful \<^verbatim>\<open>Register\<close>) gets the
  explicit "not registered" error from \<^verbatim>\<open>Run\<close> at once: whatever the host would answer,
  \<^verbatim>\<open>Run\<close> returns that error and has done nothing, in particular sent no request.
\<close>

theorem Run_unregistered:
  assumes "extensionId c = ''''"
  shows "Run L c script =
           (Returned (Some (Errorf ''extension is not registered. call Register method first'' [])),
            [])
         \<and> requests (snd (Run L c script)) = []"
  using assms by (simp add: Run_def)

theorem Run_unregistered_witness:
  "NewClient ''ext'' ''127.0.0.1:9001'' = Inr fresh_client \<and>
   extensionId fresh_client = '''' \<and>
   Run mock_lib fresh_client [event_poll invoke_payload, event_poll shutdown_payload] =
     (Returned (Some (Errorf ''extension is not registered. call Register method first'' [])), [])"
  using Run_unregistered [of fresh_client mock_lib
      "[event_poll invoke_payload, event_poll shutdown_payload]"]
  by (simp add: fresh_client_def NewClient_def)

text \<open>
  C2. In the loop's step, an event whose Invoke variant is set never ends the loop,
  whether the invoke callback is absent, succeeds or fails (a failure is logged at error
  level with the callback's error), and the loop goes on with the next poll; an event
  whose Shutdown variant is set (and Invoke is not) always ends the loop, whether the
  shutdown callback is absent, succeeds or fails, and what the host would answer next
  is not looked at.
\<close>

theorem Run_dispatch_terminal:
  shows "(EvInvoke ev = Some ie \<longrightarrow>
            fst (Run_dispatch c ev) = Continue \<and>
            (\<forall>cb err. CallbackInvoke c = Some cb \<and> cb ie = Some err \<longrightarrow>
               last (snd (Run_dispatch c ev)) =
                 Slog LevelError ''invoke callback failed'' (Some err)) \<and>
            (fst (fetchNextEvent L c (answer p)) = Inr ev \<longrightarrow>
               fst (Run_loop L c (p # ps)) = fst (Run_loop L c ps)))
       \<and> (EvInvoke ev = None \<and> EvShutdown ev = Some se \<longrightarrow>
            (\<exists>r. fst (Run_dispatch c ev) = Return r \<and>
               (fst (fetchNextEvent L c (answer p)) = Inr ev \<longrightarrow>
                  Run_loop L c (p # ps) = (Returned r, snd (Run_body L c p)))))"
proof (intro conjI impI)
  assume iv: "EvInvoke ev = Some ie"
  then show cont: "fst (Run_dispatch c ev) = Continue"
    by (simp add: Run_dispatch_def)
  show "\<forall>cb err. CallbackInvoke c = Some cb \<and> cb ie = Some err \<longrightarrow>
          last (snd (Run_dispatch c ev)) = Slog LevelError ''invoke callback failed'' (Some err)"
    using iv by (simp add: Run_dispatch_def)
  assume "fst (fetchNextEvent L c (answer p)) = Inr ev"
  then have "fst (Run_body L c p) = Continue"
    using cont by (simp add: Run_body_fetched)
  then have "Run_loop L c (p # ps) =
      (fst (Run_loop L c ps), snd (Run_body L c p) @ snd (Run_loop L c ps))"
    by (rule Run_loop_Continue)
  then show "fst (Run_loop L c (p # ps)) = fst (Run_loop L c ps)"
    by (simp only: fst_conv)
next
  assume sd: "EvInvoke ev = None \<and> EvShutdown ev = Some se"
  then obtain r where r: "fst (Run_dispatch c ev) = Return r"
    using Run_dispatch_shutdown [of ev se c] by blast
  have "fst (fetchNextEvent L c (answer p)) = Inr ev \<longrightarrow>
          Run_loop L c (p # ps) = (Returned r, snd (Run_body L c p))"
  proof
    assume "fst (fetchNextEvent L c (answer p)) = Inr ev"
    then have "fst (Run_body L c p) = Return r"
      using r by (simp add: Run_body_fetched)
    then show "Run_loop L c (p # ps) = (Returned r, snd (Run_body L c p))"
      by (rule Run_loop_Return)
  qed
  with r show "\<exists>r. fst (Run_dispatch c ev) = Return r \<and>
      (fst (fetchNextEvent L c (answer p)) = Inr ev \<longrightarrow>
         Run_loop L c (p # ps) = (Returned r, snd (Run_body L c p)))"
    by blast
qed

theorem Run_dispatch_terminal_witness:
  "EvInvoke mock_invoke_event = Some mock_invoke \<and>
   CallbackInvoke failing_client = Some failing_invoke \<and>
   failing_invoke mock_invoke = Some callback_error \<and>
   fst (fetchNextEvent mock_lib failing_client (answer (event_poll invoke_payload))) =
     Inr mock_invoke_event \<and>
   fst (Run_dispatch failing_client mock_invoke_event) = Continue \<and>
   last (snd (Run_dispatch failing_client mock_invoke_event)) =
     Slog LevelError ''invoke callback failed'' (Some callback_error) \<and>
   fst (Run_loop mock_lib failing_client [event_poll invoke_payload, cancelled_poll]) =
     fst (Run_loop mock_lib failing_client [cancelled_poll]) \<and>
   EvInvoke mock_shutdown_event = None \<and>
   EvShutdown mock_shutdown_event = Some mock_shutdown \<and>
   fst (fetchNextEvent mock_lib mock_client (answer (event_poll shutdown_payload))) =
     Inr mock_shutdown_event \<and>
   fst (Run_dispatch mock_client mock_shutdown_event) = Return None \<and>
   Run_loop mock_lib mock_client [event_poll shutdown_payload, event_poll invoke_payload] =
     (Returned None, snd (Run_body mock_lib mock_client (event_poll shutdown_payload)))"
proof -
  have a: "EvInvoke mock_invoke_event = Some mock_invoke"
    by (simp add: mock_invoke_event_def)
  have b: "CallbackInvoke failing_client = Some failing_invoke"
    by (simp add: failing_client_def)
  have c: "failing_invoke mock_invoke = Some callback_error"
    by (simp add: failing_invoke_def)
  have d: "fst (fetchNextEvent mock_lib failing_client (answer (event_poll invoke_payload))) =
             Inr mock_invoke_event"
    by code_simp
  have e: "EvInvoke mock_shutdown_event = None \<and> EvShutdown mock_shutdown_event = Some mock_shutdown"
    by (simp add: mock_shutdown_event_def)
  have f: "fst (fetchNextEvent mock_lib mock_client (answer (event_poll shutdown_payload))) =
             Inr mock_shutdown_event"
    by code_simp
  have g: "fst (Run_dispatch mock_client mock_shutdown_event) = Return None"
    by code_simp
  note inv = Run_dispatch_terminal [where ev = mock_invoke_event and ie = mock_invoke
      and c = failing_client and L = mock_lib and p = "event_poll invoke_payload"
      and ps = "[cancelled_poll]"]
  note shut = Run_dispatch_terminal [where ev = mock_shutdown_event and se = mock_shutdown
      and c = mock_client and L = mock_lib and p = "event_poll shutdown_payload"
      and ps = "[event_poll invoke_payload]"]
  from inv a b c d have i1: "fst (Run_dispatch failing_client mock_invoke_event) = Continue"
    and i2: "last (snd (Run_dispatch failing_client mock_invoke_event)) =
               Slog LevelError ''invoke callback failed'' (Some callback_error)"
    and i3: "fst (Run_loop mock_lib failing_client [event_poll invoke_payload, cancelled_poll]) =
               fst (Run_loop mock_lib failing_client [cancelled_poll])"
    by blast+
  from shut e f g have s1:
    "Run_loop mock_lib mock_client [event_poll shutdown_payload, event_poll invoke_payload] =
       (Returned None, snd (Run_body mock_lib mock_client (event_poll shutdown_payload)))"
    by auto
  from a b c d e f g i1 i2 i3 s1 show ?thesis by blast
qed

text \<open>
  C3. When a poll fails and the context is done by the time the loop looks at it, \<^verbatim>\<open>Run\<close>
  returns nil: for a registered client, however many earlier passes of the loop went
  round again (failed polls among them), the pass whose fetch fails under a done
  context ends \<^verbatim>\<open>Run\<close> with the nil error, and no request is sent after that poll's.
\<close>

theorem Run_failed_poll_cancelled:
  assumes "extensionId c \<noteq> ''''"
    and "\<forall>q \<in> set pre. fst (Run_body L c q) = Continue"
    and "fst (fetchNextEvent L c (answer p)) = Inl err"
    and "ctxDone p"
  shows "fst (Run L c (pre @ p # rest)) = Returned None \<and>
         length (requests (snd (Run L c (pre @ p # rest)))) = length pre + 1"
proof -
  have body: "Run_body L c p = (Return None, nextEventRequest c)"
    using assms(3,4) by (simp add: Run_body_fetch_failed)
  then have "Run_loop L c (p # rest) = (Returned None, nextEventRequest c)"
    using Run_loop_Return [of L c p None rest] by simp
  then have "fst (Run_loop L c (pre @ p # rest)) = Returned None \<and>
      length (requests (snd (Run_loop L c (pre @ p # rest)))) = length pre + 1"
    using Run_loop_prefix [OF assms(2), of "p # rest"]
    by (simp add: requests_nextEventRequest)
  then show ?thesis using assms(1) by (simp add: Run_def)
qed

theorem Run_failed_poll_cancelled_witness:
  "extensionId mock_client \<noteq> '''' \<and>
   fst (Run_body mock_lib mock_client failed_poll) = Continue \<and>
   fst (Run_body mock_lib mock_client (event_poll invoke_payload)) = Continue \<and>
   fst (fetchNextEvent mock_lib mock_client (answer cancelled_poll)) =
     Inl (Errorf ''failed to get next event: %w'' [ArgErr (External ''context canceled'')]) \<and>
   ctxDone cancelled_poll \<and>
   fst (Run mock_lib mock_client
          ([failed_poll, event_poll invoke_payload] @ cancelled_poll #
           [event_poll shutdown_payload])) = Returned None \<and>
   length (requests (snd (Run mock_lib mock_client
          ([failed_poll, event_poll invoke_payload] @ cancelled_poll #
           [event_poll shutdown_payload])))) = 3"
proof -
  have a: "extensionId mock_client \<noteq> ''''"
    by (simp add: mock_client_def)
  have b1: "fst (Run_body mock_lib mock_client failed_poll) = Continue"
    by code_simp
  have b2: "fst (Run_body mock_lib mock_client (event_poll invoke_payload)) = Continue"
    by code_simp
  have b: "\<forall>q \<in> set [failed_poll, event_poll invoke_payload].
             fst (Run_body mock_lib mock_client q) = Continue"
    using b1 b2 by simp
  have c: "fst (fetchNextEvent mock_lib mock_client (answer cancelled_poll)) =
     Inl (Errorf ''failed to get next event: %w'' [ArgErr (External ''context canceled'')])"
    by code_simp
  have d: "ctxDone cancelled_poll"
    by (simp add: cancelled_poll_def)
  from Run_failed_poll_cancelled [OF a b c d, of "[event_poll shutdown_payload]"] a b1 b2 c d
  show ?thesis by simp
qed

text \<open>
  C1, as the code has it. When a fetched event decodes to the Shutdown variant and the
  shutdown callback is set and returns an error, \<^verbatim>\<open>Run\<close> returns at once, with no further
  poll; its result is not the callback's error itself but a new error that wraps it
  (\<^verbatim>\<open>fmt.Errorf("shutdown callback failed: %w", err)\<close>).
\<close>

theorem Run_shutdown_callback_failed:
  assumes "extensionId c \<noteq> ''''"
    and "\<forall>q \<in> set pre. fst (Run_body L c q) = Continue"
    and "fst (fetchNextEvent L c (answer p)) = Inr ev"
    and "EvShutdown ev = Some se"
    and "CallbackShutdown c = Some cb"
    and "cb se = Some err"
  shows "fst (Run L c (pre @ p # rest)) =
           Returned (Some (Errorf ''shutdown callback failed: %w'' [ArgErr err])) \<and>
         length (requests (snd (Run L c (pre @ p # rest)))) = length pre + 1 \<and>
         last (snd (Run L c (pre @ p # rest))) =
           Slog LevelError ''shutdown callback failed'' (Some err)"
proof -
  let ?r = "Some (Errorf ''shutdown callback failed: %w'' [ArgErr err])"
  have iv: "EvInvoke ev = None"
    using fetchNextEvent_one_variant [OF assms(3)] assms(4) by simp
  have disp: "Run_dispatch c ev =
      (Return ?r,
       [Slog LevelDebug ''shutdown event received. shutting down extension'' None,
        CallShutdown se, Slog LevelError ''shutdown callback failed'' (Some err)])"
    using iv assms(4,5,6) by (simp add: Run_dispatch_def)
  have body: "Run_body L c p = (Return ?r, nextEventRequest c @ snd (Run_dispatch c ev))"
    using Run_body_fetched [OF assms(3)] disp by simp
  then have one: "Run_loop L c (p # rest) = (Returned ?r, nextEventRequest c @ snd (Run_dispatch c ev))"
    using Run_loop_Return [of L c p ?r rest] by simp
  have pre: "fst (Run_loop L c (pre @ p # rest)) = Returned ?r \<and>
      length (requests (snd (Run_loop L c (pre @ p # rest)))) = length pre + 1"
    using Run_loop_prefix [OF assms(2), of "p # rest"] one
    by (simp add: requests_append requests_nextEventRequest requests_Run_dispatch)
  have lst: "last (snd (Run_loop L c (pre @ p # rest))) =
      Slog LevelError ''shutdown callback failed'' (Some err)"
    using Run_loop_prefix_last [OF assms(2), of "p # rest"] one disp by simp
  show ?thesis using pre lst assms(1) by (simp add: Run_def)
qed

theorem Run_shutdown_callback_failed_witness:
  "extensionId failing_client \<noteq> '''' \<and>
   fst (Run_body mock_lib failing_client (event_poll invoke_payload)) = Continue \<and>
   fst (fetchNextEvent mock_lib failing_client (answer (event_poll shutdown_payload))) =
     Inr mock_shutdown_event \<and>
   EvShutdown mock_shutdown_event = Some mock_shutdown \<and>
   CallbackShutdown failing_client = Some failing_shutdown \<and>
   failing_shutdown mock_shutdown = Some callback_error \<and>
   fst (Run mock_lib failing_client
          ([event_poll invoke_payload] @ event_poll shutdown_payload #
           [event_poll invoke_payload])) =
     Returned (Some (Errorf ''shutdown callback failed: %w'' [ArgErr callback_error])) \<and>
   length (requests (snd (Run mock_lib failing_client
          ([event_poll invoke_payload] @ event_poll shutdown_payload #
           [event_poll invoke_payload])))) = 2"
proof -
  have a: "extensionId failing_client \<noteq> ''''"
    by (simp add: failing_client_def mock_client_def)
  have b1: "fst (Run_body mock_lib failing_client (event_poll invoke_payload)) = Continue"
    by code_simp
  have b: "\<forall>q \<in> set [event_poll invoke_payload].
             fst (Run_body mock_lib failing_client q) = Continue"
    using b1 by simp
  have c: "fst (fetchNextEvent mock_lib failing_client (answer (event_poll shutdown_payload))) =
             Inr mock_shutdown_event"
    by code_simp
  have d: "EvShutdown mock_shutdown_event = Some mock_shutdown"
    by (simp add: mock_shutdown_event_def)
  have e: "CallbackShutdown failing_client = Some failing_shutdown"
    by (simp add: failing_client_def)
  have f: "failing_shutdown mock_shutdown = Some callback_error"
    by (simp add: failing_shutdown_def)
  from Run_shutdown_callback_failed [OF a b c d e f, of "[event_poll invoke_payload]"]
    a b1 c d e f
  show ?thesis by simp
qed

text \<open>
  C1 as stated fails: the callback returns \<open>callback_error\<close>, and \<^verbatim>\<open>Run\<close> returns another
  error value, the wrapper around it.
\<close>

theorem Run_shutdown_callback_failed_counterexample:
  "extensionId failing_client \<noteq> '''' \<and>
   fst (fetchNextEvent mock_lib failing_client (answer (event_poll shutdown_payload))) =
     Inr mock_shutdown_event \<and>
   EvShutdown mock_shutdown_event = Some mock_shutdown \<and>
   CallbackShutdown failing_client = Some failing_shutdown \<and>
   failing_shutdown mock_shutdown = Some callback_error \<and>
   fst (Run mock_lib failing_client [event_poll shutdown_payload]) =
     Returned (Some (Errorf ''shutdown callback failed: %w'' [ArgErr callback_error])) \<and>
   fst (Run mock_lib failing_client [event_poll shutdown_payload]) \<noteq>
     Returned (Some callback_error)"
proof -
  have a: "extensionId failing_client \<noteq> ''''"
    by (simp add: failing_client_def mock_client_def)
  have c: "fst (fetchNextEvent mock_lib failing_client (answer (event_poll shutdown_payload))) =
             Inr mock_shutdown_event"
    by code_simp
  have d: "EvShutdown mock_shutdown_event = Some mock_shutdown"
    by (simp add: mock_shutdown_event_def)
  have e: "CallbackShutdown failing_client = Some failing_shutdown"
    by (simp add: failing_client_def)
  have f: "failing_shutdown mock_shutdown = Some callback_error"
    by (simp add: failing_shutdown_def)
  have g: "fst (Run mock_lib failing_client [event_poll shutdown_payload]) =
     Returned (Some (Errorf ''shutdown callback failed: %w'' [ArgErr callback_error]))"
    by code_simp
  have h: "Returned (Some (Errorf ''shutdown callback failed: %w'' [ArgErr callback_error])) \<noteq>
     Returned (Some callback_error)"
    by (simp add: callback_error_def)
  from a c d e f g h show ?thesis by simp
qed

text \<open>
  C10. A successful decode on the zero \<open>Event\<close> (the way \<^verbatim>\<open>fetchNextEvent\<close> decodes) sets
  exactly one of the two variants; so does every event a successful fetch returns; and
  \<^verbatim>\<open>Run\<close> never logs "unknown event received", the branch for an event with both variants
  nil, whatever the host answers.
\<close>

theorem decoded_event_one_variant:
  "(UnmarshalJSON L data zero_Event = (None, ev) \<longrightarrow>
      (EvInvoke ev \<noteq> None \<and> EvShutdown ev = None) \<or>
      (EvInvoke ev = None \<and> EvShutdown ev \<noteq> None)) \<and>
   (fst (fetchNextEvent L c a) = Inr ev' \<longrightarrow>
      (EvInvoke ev' \<noteq> None \<and> EvShutdown ev' = None) \<or>
      (EvInvoke ev' = None \<and> EvShutdown ev' \<noteq> None)) \<and>
   Slog LevelWarn ''unknown event received'' None \<notin> set (snd (Run L c script))"
proof (intro conjI impI)
  assume "UnmarshalJSON L data zero_Event = (None, ev)"
  then show "(EvInvoke ev \<noteq> None \<and> EvShutdown ev = None) \<or>
             (EvInvoke ev = None \<and> EvShutdown ev \<noteq> None)"
    by (rule UnmarshalJSON_zero_one_variant)
next
  assume "fst (fetchNextEvent L c a) = Inr ev'"
  then show "(EvInvoke ev' \<noteq> None \<and> EvShutdown ev' = None) \<or>
             (EvInvoke ev' = None \<and> EvShutdown ev' \<noteq> None)"
    by (rule fetchNextEvent_one_variant)
next
  show "Slog LevelWarn ''unknown event received'' None \<notin> set (snd (Run L c script))"
    using Run_loop_no_unknown [of L c script] by (simp add: Run_def)
qed

theorem decoded_event_one_variant_witness:
  "UnmarshalJSON mock_lib invoke_payload zero_Event = (None, mock_invoke_event) \<and>
   EvInvoke mock_invoke_event \<noteq> None \<and> EvShutdown mock_invoke_event = None \<and>
   fst (fetchNextEvent mock_lib mock_client (Inr (ok_response shutdown_payload))) =
     Inr mock_shutdown_event \<and>
   EvInvoke mock_shutdown_event = None \<and> EvShutdown mock_shutdown_event \<noteq> None \<and>
   Slog LevelWarn ''unknown event received'' None \<notin>
     set (snd (Run mock_lib mock_client
                 [event_poll future_payload, event_poll invoke_payload,
                  event_poll shutdown_payload]))"
proof -
  have a: "UnmarshalJSON mock_lib invoke_payload zero_Event = (None, mock_invoke_event)"
    by code_simp
  have b: "fst (fetchNextEvent mock_lib mock_client (Inr (ok_response shutdown_payload))) =
             Inr mock_shutdown_event"
    by code_simp
  have c: "EvShutdown mock_invoke_event = None" "EvInvoke mock_shutdown_event = None"
    by (simp_all add: mock_invoke_event_def mock_shutdown_event_def)
  note t = decoded_event_one_variant [of mock_lib invoke_payload mock_invoke_event
      mock_client "Inr (ok_response shutdown_payload)" mock_shutdown_event
      "[event_poll future_payload, event_poll invoke_payload, event_poll shutdown_payload]"]
  from t a b c show ?thesis by blast
qed

text \<open>
  C7, as the code has it. A payload of an unrecognized kind is not accepted at decode
  level: the decoder rejects it, so the fetch fails. The loop treats it as any failed
  fetch: no callback is called; if the context is not done the failure is logged at
  error level and the loop polls again, and if the context is done \<^verbatim>\<open>Run\<close> returns nil.
\<close>

theorem unknown_kind_fails_fetch:
  assumes "answer p = Inr resp"
    and "StatusCode resp = 200"
    and "readValue L (RespBody resp) = Inr data"
    and "parse L data = Inr v"
    and "discriminator v = Some d"
    and "d \<noteq> Invoke"
    and "d \<noteq> Shutdown"
  shows "\<exists>e. Decode_Event L (RespBody resp) = Inl e \<and>
             fst (fetchNextEvent L c (answer p)) =
               Inl (Errorf ''failed to decode event response: %w'' [ArgErr e]) \<and>
             Run_body L c p =
               (if ctxDone p then (Return None, nextEventRequest c)
                else (Continue,
                      nextEventRequest c @
                      [Slog LevelError ''failed to fetch next event''
                         (Some (Errorf ''failed to decode event response: %w'' [ArgErr e]))]))"
proof -
  obtain se t where st: "unmarshal_common L data '''' = (se, t)"
    by (cases "unmarshal_common L data ''''")
  have "t = d"
    using unmarshal_common_snd [OF assms(4)] st assms(5) by simp
  then obtain e where e: "UnmarshalJSON L data zero_Event = (Some e, zero_Event)"
    using UnmarshalJSON_other_kind [OF st] assms(6,7) by blast
  have dec: "Decode_Event L (RespBody resp) = Inl e"
    using e assms(3) by (simp add: Decode_Event_def)
  have fetch: "fetchNextEvent L c (answer p) =
      (Inl (Errorf ''failed to decode event response: %w'' [ArgErr e]), nextEventRequest c)"
    using dec assms(1,2) by (simp add: fetchNextEvent_def)
  then have "fst (fetchNextEvent L c (answer p)) =
      Inl (Errorf ''failed to decode event response: %w'' [ArgErr e])"
    by simp
  from Run_body_fetch_failed [OF this] dec this show ?thesis by blast
qed

theorem unknown_kind_fails_fetch_witness:
  "answer (event_poll future_payload) = Inr (ok_response future_payload) \<and>
   StatusCode (ok_response future_payload) = 200 \<and>
   readValue mock_lib (RespBody (ok_response future_payload)) = Inr future_payload \<and>
   parse mock_lib future_payload = Inr (JObject future_members) \<and>
   discriminator (JObject future_members) = Some ''FUTURE'' \<and>
   ''FUTURE'' \<noteq> Invoke \<and> ''FUTURE'' \<noteq> Shutdown \<and>
   \<not> ctxDone (event_poll future_payload) \<and>
   fst (Run_body mock_lib mock_client (event_poll future_payload)) = Continue \<and>
   length (snd (Run_body mock_lib mock_client (event_poll future_payload))) =
     length (nextEventRequest mock_client) + 1"
proof -
  have a: "answer (event_poll future_payload) = Inr (ok_response future_payload)"
    by (simp add: event_poll_def)
  have b: "StatusCode (ok_response future_payload) = 200"
    by (simp add: ok_response_def)
  have c: "readValue mock_lib (RespBody (ok_response future_payload)) = Inr future_payload"
    by code_simp
  have d: "parse mock_lib future_payload = Inr (JObject future_members)"
    by code_simp
  have e: "discriminator (JObject future_members) = Some ''FUTURE''"
    by code_simp
  have f: "''FUTURE'' \<noteq> Invoke" "''FUTURE'' \<noteq> Shutdown"
    by (simp_all add: Invoke_def Shutdown_def)
  have g: "\<not> ctxDone (event_poll future_payload)"
    by (simp add: event_poll_def)
  from unknown_kind_fails_fetch [OF a b c d e f, of mock_client] g
  have "fst (Run_body mock_lib mock_client (event_poll future_payload)) = Continue \<and>
        length (snd (Run_body mock_lib mock_client (event_poll future_payload))) =
          length (nextEventRequest mock_client) + 1"
    by auto
  with a b c d e f g show ?thesis by blast
qed

text \<open>
  C7 as stated fails: on the payload of kind \<^verbatim>\<open>"FUTURE"\<close> the decoder returns an error,
  the fetch fails, and what the loop logs is the error of a failed fetch, not the
  warning of its branch for unknown events.
\<close>

theorem unknown_kind_fails_fetch_counterexample:
  "Decode_Event mock_lib future_payload =
     Inl (Errorf ''unknown event type: %s'' [ArgStr ''FUTURE'']) \<and>
   fst (fetchNextEvent mock_lib mock_client (answer (event_poll future_payload))) =
     Inl (Errorf ''failed to decode event response: %w''
            [ArgErr (Errorf ''unknown event type: %s'' [ArgStr ''FUTURE''])]) \<and>
   Run_body mock_lib mock_client (event_poll future_payload) =
     (Continue,
      nextEventRequest mock_client @
      [Slog LevelError ''failed to fetch next event''
         (Some (Errorf ''failed to decode event response: %w''
                  [ArgErr (Errorf ''unknown event type: %s'' [ArgStr ''FUTURE''])]))]) \<and>
   Slog LevelWarn ''unknown event received'' None \<notin>
     set (snd (Run_body mock_lib mock_client (event_poll future_payload)))"
proof -
  have a: "Decode_Event mock_lib future_payload =
     Inl (Errorf ''unknown event type: %s'' [ArgStr ''FUTURE''])"
    by code_simp
  have b: "fst (fetchNextEvent mock_lib mock_client (answer (event_poll future_payload))) =
     Inl (Errorf ''failed to decode event response: %w''
            [ArgErr (Errorf ''unknown event type: %s'' [ArgStr ''FUTURE''])])"
    by code_simp
  have c: "Run_body mock_lib mock_client (event_poll future_payload) =
     (Continue,
      nextEventRequest mock_client @
      [Slog LevelError ''failed to fetch next event''
         (Some (Errorf ''failed to decode event response: %w''
                  [ArgErr (Errorf ''unknown event type: %s'' [ArgStr ''FUTURE''])]))])"
    using Run_body_fetch_failed [OF b] by (simp add: event_poll_def)
  have d: "Slog LevelWarn ''unknown event received'' None \<notin>
     set (snd (Run_body mock_lib mock_client (event_poll future_payload)))"
    unfolding c by (simp add: nextEventRequest_def)
  from a b c d show ?thesis by blast
qed

section \<open>Claims about the handshakes\<close>

lemma Register_frame:
  "fst (snd (Register L c d)) = c\<lparr>extensionId := extensionId (fst (snd (Register L c d)))\<rparr>"
  by (simp add: Register_def Let_def split: sum.splits option.splits)

lemma Register_failed_early:
  assumes "(\<exists>e. d = Inl e) \<or> (\<exists>resp. d = Inr resp \<and> Decode_string_map L (RespBody resp) \<noteq> None)"
  shows "fst (Register L c d) \<noteq> None \<and> fst (snd (Register L c d)) = c"
  using assms by (auto simp: Register_def Let_def split: sum.splits option.splits)

lemma Register_succeeded:
  assumes "fst (Register L c d) = None"
  shows "\<exists>resp. d = Inr resp \<and>
           extensionId (fst (snd (Register L c d))) =
             Header_Get (RespHeader resp) lambdaExtensionIdentifierHeader \<and>
           extensionId (fst (snd (Register L c d))) \<noteq> ''''"
  using assms by (auto simp: Register_def Let_def split: sum.splits option.splits if_splits)

lemma Register_failed_unregistered:
  assumes "fst (Register L c d) \<noteq> None" and "extensionId c = ''''"
  shows "extensionId (fst (snd (Register L c d))) = ''''"
  using assms by (auto simp: Register_def Let_def split: sum.splits option.splits if_splits)

lemma Register_seq_until_success:
  assumes "extensionId c = ''''"
  shows "\<forall>(err, ident) \<in> set (takeWhile (\<lambda>(err, ident). err \<noteq> None) (Register_seq L c ds)).
           ident = ''''"
  using assms
proof (induction ds arbitrary: c)
  case Nil
  then show ?case by simp
next
  case (Cons d ds)
  obtain err c' tr where r: "Register L c d = (err, c', tr)"
    by (cases "Register L c d")
  show ?case
  proof (cases err)
    case None
    with r show ?thesis by simp
  next
    case (Some e)
    then have "extensionId c' = ''''"
      using Register_failed_unregistered [of L c d] r Cons.prems by simp
    with Cons.IH [of c'] r Some show ?thesis by simp
  qed
qed

lemma Register_seq_success:
  "\<forall>(err, ident) \<in> set (Register_seq L c ds). err = None \<longrightarrow> ident \<noteq> ''''"
proof (induction ds arbitrary: c)
  case Nil
  then show ?case by simp
next
  case (Cons d ds)
  obtain err c' tr where r: "Register L c d = (err, c', tr)"
    by (cases "Register L c d")
  have "err = None \<longrightarrow> extensionId c' \<noteq> ''''"
    using Register_succeeded [of L c d] r by auto
  with Cons.IH [of c'] r show ?case by simp
qed

text \<open>
  C8, as the code has it. A \<^verbatim>\<open>Register\<close> call that fails before the response's headers
  are read (the transport fails, or the body does not decode) leaves the client as it
  was; a successful call sets the session identifier to the identifier header of its
  own response, which is not empty, whatever the identifier was before; no call changes
  another field; a failing call on a client whose identifier is empty leaves it empty.
  Over a sequence of calls on a client that starts with an empty identifier, the
  identifier is empty after every call up to the first successful one, and not empty
  after each successful one.
\<close>

theorem Register_extensionId:
  "((\<exists>e. d = Inl e) \<or> (\<exists>resp. d = Inr resp \<and> Decode_string_map L (RespBody resp) \<noteq> None)
      \<longrightarrow> fst (Register L c d) \<noteq> None \<and> fst (snd (Register L c d)) = c) \<and>
   (fst (Register L c d) = None \<longrightarrow>
      (\<exists>resp. d = Inr resp \<and>
         extensionId (fst (snd (Register L c d))) =
           Header_Get (RespHeader resp) lambdaExtensionIdentifierHeader \<and>
         extensionId (fst (snd (Register L c d))) \<noteq> '''')) \<and>
   (fst (Register L c d) \<noteq> None \<and> extensionId c = '''' \<longrightarrow>
      extensionId (fst (snd (Register L c d))) = '''') \<and>
   fst (snd (Register L c d)) = c\<lparr>extensionId := extensionId (fst (snd (Register L c d)))\<rparr> \<and>
   (extensionId c = '''' \<longrightarrow>
      (\<forall>(err, ident) \<in> set (takeWhile (\<lambda>(err, ident). err \<noteq> None) (Register_seq L c ds)).
         ident = '''')) \<and>
   (\<forall>(err, ident) \<in> set (Register_seq L c ds). err = None \<longrightarrow> ident \<noteq> '''')"
  using Register_failed_early [of d L c] Register_succeeded [of L c d]
    Register_failed_unregistered [of L c d] Register_frame [of L c d]
    Register_seq_until_success [of c L ds] Register_seq_success [of L c ds]
  by blast

theorem Register_extensionId_witness:
  "extensionId fresh_client = '''' \<and>
   fst (Register mock_lib fresh_client (Inl (External ''connection refused''))) \<noteq> None \<and>
   fst (snd (Register mock_lib fresh_client (Inl (External ''connection refused'')))) =
     fresh_client \<and>
   fst (Register mock_lib mock_client (Inr (register_response ''1111''))) = None \<and>
   extensionId (fst (snd (Register mock_lib mock_client (Inr (register_response ''1111''))))) =
     ''1111'' \<and>
   fst (Register mock_lib fresh_client (Inr (ok_response register_body))) \<noteq> None \<and>
   extensionId (fst (snd (Register mock_lib fresh_client (Inr (ok_response register_body))))) =
     '''' \<and>
   Register_seq mock_lib fresh_client
     [Inr (ok_response register_body), Inl (External ''connection refused''),
      Inr (register_response ''1111'')] =
     [(Some (Errorf ''extension identifier is empty: %d %v''
               [ArgInt 200, ArgHeader [(''Content-Type'', [''application/json''])]]), ''''),
      (Some (Errorf ''failed to register extension: %w''
               [ArgErr (External ''connection refused'')]), ''''),
      (None, ''1111'')]"
proof -
  have a: "extensionId fresh_client = ''''"
    by (simp add: fresh_client_def)
  have b: "fst (Register mock_lib mock_client (Inr (register_response ''1111''))) = None"
    by code_simp
  have c: "Header_Get (RespHeader (register_response ''1111'')) lambdaExtensionIdentifierHeader =
             ''1111''"
    by code_simp
  have d: "fst (Register mock_lib fresh_client (Inr (ok_response register_body))) \<noteq> None"
    by code_simp
  have e: "Register_seq mock_lib fresh_client
     [Inr (ok_response register_body), Inl (External ''connection refused''),
      Inr (register_response ''1111'')] =
     [(Some (Errorf ''extension identifier is empty: %d %v''
               [ArgInt 200, ArgHeader [(''Content-Type'', [''application/json''])]]), ''''),
      (Some (Errorf ''failed to register extension: %w''
               [ArgErr (External ''connection refused'')]), ''''),
      (None, ''1111'')]"
    by code_simp
  note t1 = Register_extensionId [of "Inl (External ''connection refused'')" mock_lib fresh_client "[]"]
  note t2 = Register_extensionId [of "Inr (register_response ''1111'')" mock_lib mock_client "[]"]
  note t3 = Register_extensionId [of "Inr (ok_response register_body)" mock_lib fresh_client "[]"]
  from t1 have r1:
    "fst (Register mock_lib fresh_client (Inl (External ''connection refused''))) \<noteq> None \<and>
     fst (snd (Register mock_lib fresh_client (Inl (External ''connection refused'')))) =
       fresh_client"
    by blast
  from t2 b c have r2:
    "extensionId (fst (snd (Register mock_lib mock_client (Inr (register_response ''1111''))))) =
       ''1111''"
    by auto
  from t3 a d have r3:
    "extensionId (fst (snd (Register mock_lib fresh_client (Inr (ok_response register_body))))) =
       ''''"
    by blast
  from a b d e r1 r2 r3 show ?thesis by blast
qed

text \<open>
  C8 as stated fails: two successful calls in a row, with different identifiers in the
  two responses, change the session identifier twice.
\<close>

theorem Register_extensionId_counterexample:
  "extensionId fresh_client = '''' \<and>
   Register_seq mock_lib fresh_client
     [Inr (register_response ''1111''), Inr (register_response ''2222'')] =
     [(None, ''1111''), (None, ''2222'')] \<and>
   ''1111'' \<noteq> ''2222''"
proof -
  have a: "extensionId fresh_client = ''''"
    by (simp add: fresh_client_def)
  have b: "Register_seq mock_lib fresh_client
     [Inr (register_response ''1111''), Inr (register_response ''2222'')] =
     [(None, ''1111''), (None, ''2222'')]"
    by code_simp
  from a b show ?thesis by simp
qed

lemma fmt_d_DefaultTelemetryPort: "fmt_d DefaultTelemetryPort = ''8080''"
  by (simp add: fmt_d_def DefaultTelemetryPort_def decimal.simps)

text \<open>What a call with the nil subscription sends: the variable as it is at the call.\<close>

lemma SubscribeTelemetry_nil_request:
  "requests (snd (SubscribeTelemetry M c None d)) =
     [\<lparr>Method = ''PUT'', URL = lambdaTelemetryAPIEndpoint c,
       ReqHeader = [(''Lambda-Extension-Name'', [Name c]),
                    (''Lambda-Extension-Identifier'', [extensionId c])],
       ReqBody = Some (marshal_TelemetrySubscription (arrays M)
                         (DefaultTelemetrySubscription M))\<rparr>]"
  by (cases d)
     (simp_all add: SubscribeTelemetry_def Let_def NewDefaultTelemetrySubscription_def
        lambdaExtensionNameHeader_def lambdaExtensionIdentifierHeader_def)

lemma marshal_initial_value:
  assumes "elems h (Types (DefaultTelemetrySubscription memory_init)) =
             Some [''function'', ''platform'']"
  shows "marshal_TelemetrySubscription h (DefaultTelemetrySubscription memory_init) =
           documented_default"
  using assms
  by (simp add: marshal_TelemetrySubscription_def memory_init_def documented_default_def
      fmt_d_DefaultTelemetryPort)

text \<open>
  C9, as the code has it. \<^verbatim>\<open>SubscribeTelemetry\<close> called with the nil subscription, while
  the package variable \<^verbatim>\<open>DefaultTelemetrySubscription\<close> holds the value its declaration
  gave it and the elements of its \<open>Types\<close> are \<^verbatim>\<open>"function"\<close> and \<^verbatim>\<open>"platform"\<close>, sends one
  request, a PUT to the telemetry endpoint with the two headers, whose body is the
  documented default: schema version 2022-12-13, types function and platform, buffering
  500 items, 1048576 bytes, 1000 ms, destination HTTP at
  http://sandbox.localdomain:8080; this whatever the rest of the memory holds and
  whatever the host answers.
\<close>

theorem SubscribeTelemetry_default:
  assumes "DefaultTelemetrySubscription M = DefaultTelemetrySubscription memory_init"
    and "elems (arrays M) (Types (DefaultTelemetrySubscription M)) =
           Some [''function'', ''platform'']"
  shows "requests (snd (SubscribeTelemetry M c None d)) =
     [\<lparr>Method = ''PUT'', URL = lambdaTelemetryAPIEndpoint c,
       ReqHeader = [(''Lambda-Extension-Name'', [Name c]),
                    (''Lambda-Extension-Identifier'', [extensionId c])],
       ReqBody = Some (JObject
         [(''schemaVersion'', JString ''2022-12-13''),
          (''types'', JArray [JString ''function'', JString ''platform'']),
          (''buffering'', JObject [(''maxItems'', JInt 500), (''maxBytes'', JInt 1048576),
                                   (''timeoutMs'', JInt 1000)]),
          (''destination'', JObject [(''protocol'', JString ''HTTP''),
                                     (''URI'', JString ''http://sandbox.localdomain:8080'')])])\<rparr>]"
proof -
  have "marshal_TelemetrySubscription (arrays M) (DefaultTelemetrySubscription M) =
          documented_default"
    using assms marshal_initial_value [of "arrays M"] by simp
  then show ?thesis
    by (simp add: SubscribeTelemetry_nil_request documented_default_def)
qed

theorem SubscribeTelemetry_default_witness:
  "elems (arrays memory_init) (Types (DefaultTelemetrySubscription memory_init)) =
     Some [''function'', ''platform''] \<and>
   requests (snd (SubscribeTelemetry memory_init mock_client None (Inr (ok_response ''OK'')))) =
     [\<lparr>Method = ''PUT'', URL = ''http://127.0.0.1:9001/2022-07-01/telemetry'',
       ReqHeader = [(''Lambda-Extension-Name'', [''ext'']),
                    (''Lambda-Extension-Identifier'', [''0000-0000-0000-0000''])],
       ReqBody = Some documented_default\<rparr>]"
proof -
  have a: "elems (arrays memory_init) (Types (DefaultTelemetrySubscription memory_init)) =
             Some [''function'', ''platform'']"
    by (simp add: memory_init_def)
  from SubscribeTelemetry_default [OF refl a, of mock_client "Inr (ok_response ''OK'')"] a
  show ?thesis
    by (simp add: mock_client_def fresh_client_def documented_default_def)
qed

text \<open>
  C9 as stated fails. After an importer has assigned the variable's \<open>Buffering\<close>, a call
  with the nil subscription sends the assigned limits; after an importer has written
  \<^verbatim>\<open>"extension"\<close> through the \<open>Types\<close> of a copy handed out by
  \<^verbatim>\<open>NewDefaultTelemetrySubscription\<close>, it sends the types extension and platform. Neither
  body is the documented default.
\<close>

theorem SubscribeTelemetry_default_counterexample:
  "requests (snd (SubscribeTelemetry reassigned_memory mock_client None
                    (Inr (ok_response ''OK'')))) =
     [\<lparr>Method = ''PUT'', URL = ''http://127.0.0.1:9001/2022-07-01/telemetry'',
       ReqHeader = [(''Lambda-Extension-Name'', [''ext'']),
                    (''Lambda-Extension-Identifier'', [''0000-0000-0000-0000''])],
       ReqBody = Some (JObject
         [(''schemaVersion'', JString ''2022-12-13''),
          (''types'', JArray [JString ''function'', JString ''platform'']),
          (''buffering'', JObject [(''maxItems'', JInt 1000), (''maxBytes'', JInt 262144),
                                   (''timeoutMs'', JInt 100)]),
          (''destination'', JObject [(''protocol'', JString ''HTTP''),
                                     (''URI'', JString ''http://sandbox.localdomain:8080'')])])\<rparr>] \<and>
   marshal_TelemetrySubscription (arrays reassigned_memory)
     (DefaultTelemetrySubscription reassigned_memory) \<noteq> documented_default \<and>
   slice_set (arrays memory_init) (Types (NewDefaultTelemetrySubscription memory_init))
     0 ''extension'' = Some (arrays written_memory) \<and>
   DefaultTelemetrySubscription written_memory = DefaultTelemetrySubscription memory_init \<and>
   requests (snd (SubscribeTelemetry written_memory mock_client None
                    (Inr (ok_response ''OK'')))) =
     [\<lparr>Method = ''PUT'', URL = ''http://127.0.0.1:9001/2022-07-01/telemetry'',
       ReqHeader = [(''Lambda-Extension-Name'', [''ext'']),
                    (''Lambda-Extension-Identifier'', [''0000-0000-0000-0000''])],
       ReqBody = Some (JObject
         [(''schemaVersion'', JString ''2022-12-13''),
          (''types'', JArray [JString ''extension'', JString ''platform'']),
          (''buffering'', JObject [(''maxItems'', JInt 500), (''maxBytes'', JInt 1048576),
                                   (''timeoutMs'', JInt 1000)]),
          (''destination'', JObject [(''protocol'', JString ''HTTP''),
                                     (''URI'', JString ''http://sandbox.localdomain:8080'')])])\<rparr>] \<and>
   marshal_TelemetrySubscription (arrays written_memory)
     (DefaultTelemetrySubscription written_memory) \<noteq> documented_default"
proof -
  have m1: "marshal_TelemetrySubscription (arrays reassigned_memory)
              (DefaultTelemetrySubscription reassigned_memory) =
     JObject
         [(''schemaVersion'', JString ''2022-12-13''),
          (''types'', JArray [JString ''function'', JString ''platform'']),
          (''buffering'', JObject [(''maxItems'', JInt 1000), (''maxBytes'', JInt 262144),
                                   (''timeoutMs'', JInt 100)]),
          (''destination'', JObject [(''protocol'', JString ''HTTP''),
                                     (''URI'', JString ''http://sandbox.localdomain:8080'')])]"
    by (simp add: marshal_TelemetrySubscription_def reassigned_memory_def memory_init_def
        fmt_d_DefaultTelemetryPort)
  have w: "written_memory =
     memory_init\<lparr>arrays := (arrays memory_init)(Types_array := [''extension'', ''platform''])\<rparr>"
    by (simp add: written_memory_def NewDefaultTelemetrySubscription_def memory_init_def)
  have s: "slice_set (arrays memory_init) (Types (NewDefaultTelemetrySubscription memory_init))
             0 ''extension'' = Some (arrays written_memory)"
    unfolding w by (simp add: NewDefaultTelemetrySubscription_def memory_init_def)
  have v: "DefaultTelemetrySubscription written_memory = DefaultTelemetrySubscription memory_init"
    unfolding w by simp
  have m2: "marshal_TelemetrySubscription (arrays written_memory)
              (DefaultTelemetrySubscription written_memory) =
     JObject
         [(''schemaVersion'', JString ''2022-12-13''),
          (''types'', JArray [JString ''extension'', JString ''platform'']),
          (''buffering'', JObject [(''maxItems'', JInt 500), (''maxBytes'', JInt 1048576),
                                   (''timeoutMs'', JInt 1000)]),
          (''destination'', JObject [(''protocol'', JString ''HTTP''),
                                     (''URI'', JString ''http://sandbox.localdomain:8080'')])]"
    unfolding w
    by (simp add: marshal_TelemetrySubscription_def memory_init_def fmt_d_DefaultTelemetryPort)
  have r1: "requests (snd (SubscribeTelemetry reassigned_memory mock_client None
                    (Inr (ok_response ''OK'')))) =
     [\<lparr>Method = ''PUT'', URL = ''http://127.0.0.1:9001/2022-07-01/telemetry'',
       ReqHeader = [(''Lambda-Extension-Name'', [''ext'']),
                    (''Lambda-Extension-Identifier'', [''0000-0000-0000-0000''])],
       ReqBody = Some (marshal_TelemetrySubscription (arrays reassigned_memory)
                         (DefaultTelemetrySubscription reassigned_memory))\<rparr>]"
    by (simp add: SubscribeTelemetry_nil_request mock_client_def fresh_client_def)
  have r2: "requests (snd (SubscribeTelemetry written_memory mock_client None
                    (Inr (ok_response ''OK'')))) =
     [\<lparr>Method = ''PUT'', URL = ''http://127.0.0.1:9001/2022-07-01/telemetry'',
       ReqHeader = [(''Lambda-Extension-Name'', [''ext'']),
                    (''Lambda-Extension-Identifier'', [''0000-0000-0000-0000''])],
       ReqBody = Some (marshal_TelemetrySubscription (arrays written_memory)
                         (DefaultTelemetrySubscription written_memory))\<rparr>]"
    by (simp add: SubscribeTelemetry_nil_request mock_client_def fresh_client_def)
  have n1: "marshal_TelemetrySubscription (arrays reassigned_memory)
              (DefaultTelemetrySubscription reassigned_memory) \<noteq> documented_default"
    unfolding m1 by (simp add: documented_default_def)
  have n2: "marshal_TelemetrySubscription (arrays written_memory)
              (DefaultTelemetrySubscription written_memory) \<noteq> documented_default"
    unfolding m2 by (simp add: documented_default_def)
  from r1 r2 m1 m2 n1 n2 s v show ?thesis by simp
qed

end
